theory Spec2Isabelle
  imports Main "HOL-Library.AList"
begin

section \<open>Monalias: resolve handler, rate limiter and identity watchdog\<close>

text \<open>
  A shallow embedding of the Go packages \<^verbatim>\<open>internal/db\<close>, \<^verbatim>\<open>internal/monero\<close>,
  \<^verbatim>\<open>internal/http\<close>, \<^verbatim>\<open>internal/identity\<close> and of the three instance mutations
  of \<^verbatim>\<open>internal/graphql\<close>.

  Conventions.
  \<^item> A Go \<^verbatim>\<open>string\<close> is a byte string, here \<^typ>\<open>string\<close>.
  \<^item> \<^verbatim>\<open>sql.NullString\<close>, \<^verbatim>\<open>sql.NullInt64\<close> and \<^verbatim>\<open>sql.NullTime\<close> are options:
    \<open>None\<close> is \<^verbatim>\<open>Valid = false\<close>, \<open>Some v\<close> is \<^verbatim>\<open>Valid = true\<close> with value \<open>v\<close>.
  \<^item> A nil pointer is \<open>None\<close>.
  \<^item> A Go \<^verbatim>\<open>error\<close> is a value of the datatype \<open>error\<close>; a function returning
    \<^verbatim>\<open>(T, error)\<close> returns \<open>error + T\<close>, with \<open>Inl\<close> for the error.
  \<^item> Every call that leaves the process (a statement sent to the database, a wallet RPC,
    an Ed25519 signature, an outbound HTTP request) is recorded, in program order, in a
    list of events returned next to the result.
  \<^item> The functions of libraries outside the repository (Unicode case folding, Ed25519,
    base64, time formatting, JSON decoding, the wallet RPC client, the token bucket of
    \<^verbatim>\<open>golang.org/x/time/rate\<close>, the HTTP client) are parameters: fields of a record
    that the caller supplies, or the decoded value itself.
\<close>

subsection \<open>Errors and events\<close>

type_synonym time = nat

datatype error =
    ErrNoRows                 \<comment> \<open>\<^verbatim>\<open>sql.ErrNoRows\<close>\<close>
  | ErrDriver                 \<comment> \<open>any other error of \<^verbatim>\<open>database/sql\<close>\<close>
  | ErrTransport              \<comment> \<open>an error returned by a remote call\<close>
  | ErrRequest                \<comment> \<open>\<^verbatim>\<open>http.NewRequestWithContext\<close> rejected the URL\<close>
  | ErrMsg string             \<comment> \<open>\<^verbatim>\<open>errors.New(msg)\<close>\<close>

datatype event =
    DbGetInstanceConfig
  | DbGetAliasByFullAcct string
  | DbGetAccount int
  | DbUpdateInstanceStatus string "string option" "time option"
  | RpcOpenWallet string
  | RpcGetAddress nat
  | Ed25519Sign string
  | HttpGet string

fun is_write :: "event \<Rightarrow> bool" where
  "is_write (DbUpdateInstanceStatus st reason t) = True"
| "is_write e = False"

subsection \<open>\<^verbatim>\<open>internal/config\<close> and \<^verbatim>\<open>internal/db\<close>\<close>

record Config =
  Domain :: string
  PublicBaseURL :: string
  CatchAllAddress :: string
  SigningKeyID :: string

record InstanceConfig =
  ic_ID :: int
  ic_Domain :: string
  ic_Homeserver :: string
  ic_SigningKeyID :: string
  ic_SigningPubkey :: string
  ic_Status :: string
  ic_StatusReason :: "string option"
  ic_LastIdentityCheckAt :: "time option"

record Account =
  acc_ID :: int
  acc_Handle :: string
  acc_WalletName :: "string option"
  acc_CreatedAt :: time

record Alias =
  al_ID :: int
  al_AccountID :: int
  al_FullAcct :: string
  al_AliasLabel :: string
  al_Mode :: string
  al_StaticAddress :: "string option"
  al_NextSubaddrIdx :: "int option"
  al_CreatedAt :: time
  al_UpdatedAt :: time

text \<open>
  The database: the single row of \<^verbatim>\<open>instance_config\<close> (absent before the first upsert),
  the rows of \<^verbatim>\<open>accounts\<close> and \<^verbatim>\<open>aliases\<close>, and whether the handle is unusable
  (closed, or the file unreadable), in which case every statement returns a driver error.
\<close>

record DB =
  instance_config :: "InstanceConfig option"
  accounts :: "Account list"
  aliases :: "Alias list"
  unavailable :: bool

definition GetInstanceConfig :: "DB \<Rightarrow> error + InstanceConfig" where
  "GetInstanceConfig d =
     (if unavailable d then Inl ErrDriver
      else case instance_config d of
             None \<Rightarrow> Inl ErrNoRows
           | Some c \<Rightarrow> Inr c)"

definition UpdateInstanceStatus ::
  "DB \<Rightarrow> string \<Rightarrow> string option \<Rightarrow> time option \<Rightarrow> (error + InstanceConfig) \<times> DB" where
  "UpdateInstanceStatus d st reason lastCheck =
     (if unavailable d then (Inl ErrDriver, d)
      else case instance_config d of
             None \<Rightarrow> (Inl ErrNoRows, d)
           | Some c \<Rightarrow>
               (let c' = c\<lparr>ic_Status := st, ic_StatusReason := reason,
                            ic_LastIdentityCheckAt := lastCheck\<rparr>
                in (Inr c', d\<lparr>instance_config := Some c'\<rparr>)))"

definition GetAccount :: "DB \<Rightarrow> int \<Rightarrow> error + Account" where
  "GetAccount d i =
     (if unavailable d then Inl ErrDriver
      else case find (\<lambda>a. acc_ID a = i) (accounts d) of
             None \<Rightarrow> Inl ErrNoRows
           | Some a \<Rightarrow> Inr a)"

definition GetAliasByFullAcct :: "DB \<Rightarrow> string \<Rightarrow> error + Alias" where
  "GetAliasByFullAcct d fullAcct =
     (if unavailable d then Inl ErrDriver
      else case find (\<lambda>a. al_FullAcct a = fullAcct) (aliases d) of
             None \<Rightarrow> Inl ErrNoRows
           | Some a \<Rightarrow> Inr a)"

subsection \<open>\<^verbatim>\<open>internal/monero\<close>: the wallet bridge\<close>

text \<open>
  The client of \<^verbatim>\<open>gitlab.com/moneropay/go-monero/walletrpc\<close> is outside the
  repository: it is the pair of answers the remote wallet gives to \<^verbatim>\<open>open_wallet\<close>
  and to \<^verbatim>\<open>get_address\<close> (the list \<^verbatim>\<open>resp.Addresses\<close>).
\<close>

record walletrpc_Client =
  rpc_OpenWallet :: "string \<Rightarrow> error option"
  rpc_GetAddress :: "nat \<Rightarrow> error + string list"

record WalletRPC =
  client :: "walletrpc_Client option"

definition Enabled :: "WalletRPC option \<Rightarrow> bool" where
  "Enabled w = (case w of None \<Rightarrow> False | Some x \<Rightarrow> client x \<noteq> None)"

definition OpenWallet :: "WalletRPC \<Rightarrow> string \<Rightarrow> error option \<times> event list" where
  "OpenWallet w name =
     (case client w of
        None \<Rightarrow> (Some (ErrMsg ''wallet rpc not configured''), [])
      | Some c \<Rightarrow> (rpc_OpenWallet c name, [RpcOpenWallet name]))"

text \<open>\<^verbatim>\<open>uint64(index)\<close> of an \<^verbatim>\<open>int64\<close> is the index modulo \<open>2 ^ 64\<close>.\<close>

definition uint64 :: "int \<Rightarrow> nat" where
  "uint64 i = nat (i mod 2 ^ 64)"

definition GetAddress :: "WalletRPC \<Rightarrow> int \<Rightarrow> (error + string) \<times> event list" where
  "GetAddress w index =
     (case client w of
        None \<Rightarrow> (Inl (ErrMsg ''wallet rpc not configured''), [])
      | Some c \<Rightarrow>
          (case rpc_GetAddress c (uint64 index) of
             Inl err \<Rightarrow> (Inl err, [RpcGetAddress (uint64 index)])
           | Inr addresses \<Rightarrow>
               (case addresses of
                  [] \<Rightarrow> (Inl (ErrMsg ''address not found''), [RpcGetAddress (uint64 index)])
                | a # rest \<Rightarrow> (Inr a, [RpcGetAddress (uint64 index)]))))"

subsection \<open>\<^verbatim>\<open>internal/http/public.go\<close>: the resolve handler\<close>

record Lib =
  EqualFold :: "string \<Rightarrow> string \<Rightarrow> bool"           \<comment> \<open>\<^verbatim>\<open>strings.EqualFold\<close>\<close>
  ed25519_Sign :: "string \<Rightarrow> string \<Rightarrow> string"      \<comment> \<open>\<^verbatim>\<open>ed25519.Sign(key, message)\<close>\<close>
  base64_Encode :: "string \<Rightarrow> string"               \<comment> \<open>\<^verbatim>\<open>base64.StdEncoding.EncodeToString\<close>\<close>
  Format_RFC3339 :: "time \<Rightarrow> string"              \<comment> \<open>\<^verbatim>\<open>t.UTC().Format(time.RFC3339)\<close>\<close>

record PublicService =
  cfg :: Config
  signer :: string
  walletRPC :: "WalletRPC option"
  catchAll :: string
  signingKID :: string

definition NewPublicService :: "Config \<Rightarrow> string \<Rightarrow> WalletRPC option \<Rightarrow> PublicService" where
  "NewPublicService c key w =
     \<lparr>cfg = c, signer = key, walletRPC = w,
      catchAll = CatchAllAddress c, signingKID = SigningKeyID c\<rparr>"

record resolveRequest =
  req_Acct :: string
  req_Network :: string

record resolveMeta =
  meta_DisplayName :: "string option"
  meta_Alias :: "string option"
  meta_ResolvedKind :: string

record resolveResponse =
  resp_Address :: string
  resp_Network :: string
  resp_Meta :: resolveMeta
  resp_ExpiresAt :: "time option"

text \<open>
  A request: its method, its peer address, and what \<^verbatim>\<open>json.Decoder.Decode\<close> makes of
  its body (\<open>None\<close> when decoding fails; a field missing from the JSON object is the
  empty string).
\<close>

record Request =
  Method :: string
  RemoteAddr :: string
  Body :: "resolveRequest option"

text \<open>
  What a handler has written: the header map, the status code of \<^verbatim>\<open>WriteHeader\<close>
  (\<open>None\<close> before the call) and the body: the value given to the JSON encoder, or raw bytes.
\<close>

datatype payload =
    JSONMap "(string \<times> string) list"
  | JSONResolve resolveResponse
  | RawBytes string

record ResponseWriter =
  Header :: "(string \<times> string) list"
  StatusCode :: "nat option"
  Written :: "payload option"

definition Header_Set :: "string \<Rightarrow> string \<Rightarrow> ResponseWriter \<Rightarrow> ResponseWriter" where
  "Header_Set k v w = w\<lparr>Header := AList.update k v (Header w)\<rparr>"

definition Header_Get :: "ResponseWriter \<Rightarrow> string \<Rightarrow> string option" where
  "Header_Get w k = map_of (Header w) k"

definition WriteHeader :: "nat \<Rightarrow> ResponseWriter \<Rightarrow> ResponseWriter" where
  "WriteHeader code w = w\<lparr>StatusCode := Some code\<rparr>"

definition writeJSON :: "ResponseWriter \<Rightarrow> nat \<Rightarrow> payload \<Rightarrow> ResponseWriter" where
  "writeJSON w code p =
     (WriteHeader code (Header_Set ''Content-Type'' ''application/json'' w))\<lparr>Written := Some p\<rparr>"

definition writeJSONError :: "ResponseWriter \<Rightarrow> nat \<Rightarrow> string \<Rightarrow> ResponseWriter" where
  "writeJSONError w code c = writeJSON w code (JSONMap [(''error'', c)])"

definition writeJSONErrorWithReason ::
  "ResponseWriter \<Rightarrow> nat \<Rightarrow> string \<Rightarrow> string option \<Rightarrow> ResponseWriter" where
  "writeJSONErrorWithReason w code c reason =
     writeJSON w code
       (JSONMap (case reason of
                   None \<Rightarrow> [(''error'', c)]
                 | Some r \<Rightarrow> AList.update ''reason'' r [(''error'', c)]))"

text \<open>\<^verbatim>\<open>strings.Split(s, sep)\<close> for a separator of one byte.\<close>

fun Split :: "string \<Rightarrow> char \<Rightarrow> string list" where
  "Split [] sep = [[]]"
| "Split (c # cs) sep =
     (if c = sep then [] # Split cs sep
      else (case Split cs sep of
              [] \<Rightarrow> [[c]]
            | p # ps \<Rightarrow> (c # p) # ps))"

text \<open>\<^verbatim>\<open>strings.Join(elems, sep)\<close>.\<close>

fun Join :: "string list \<Rightarrow> string \<Rightarrow> string" where
  "Join [] sep = []"
| "Join [x] sep = x"
| "Join (x # y # ys) sep = x @ sep @ Join (y # ys) sep"

definition acctMatchesDomain :: "Lib \<Rightarrow> string \<Rightarrow> string \<Rightarrow> bool" where
  "acctMatchesDomain L acct domain =
     (let parts = Split acct CHR ''$''
      in if length parts \<noteq> 2 then False
         else EqualFold L (parts ! 1) domain)"

definition displayNameFromAcct :: "string \<Rightarrow> string" where
  "displayNameFromAcct acct =
     (case Split acct CHR ''$'' of
        [] \<Rightarrow> []
      | local # rest \<Rightarrow>
          if local = [] then []
          else takeWhile (\<lambda>c. c \<noteq> CHR ''+'') local)"

text \<open>The fields \<^verbatim>\<open>Valid\<close> and \<^verbatim>\<open>String\<close> of a \<^verbatim>\<open>sql.NullString\<close>.\<close>

definition Valid :: "'a option \<Rightarrow> bool" where
  "Valid x = (x \<noteq> None)"

definition String :: "string option \<Rightarrow> string" where
  "String x = (case x of None \<Rightarrow> [] | Some v \<Rightarrow> v)"

definition resolveAlias ::
  "PublicService \<Rightarrow> DB \<Rightarrow> Alias \<Rightarrow> (error + string \<times> string option \<times> string) \<times> event list" where
  "resolveAlias s d alias =
     (let label = al_AliasLabel alias; resolvedKind = ''NORMAL'' in
      if al_Mode alias = ''STATIC_ADDRESS'' then
        (if \<not> Valid (al_StaticAddress alias) \<or> String (al_StaticAddress alias) = []
         then (Inl (ErrMsg ''static address missing''), [])
         else (Inr (String (al_StaticAddress alias), Some label, resolvedKind), []))
      else if al_Mode alias = ''DYNAMIC_SUBADDRESS'' then
        (if Valid (al_StaticAddress alias) \<and> String (al_StaticAddress alias) \<noteq> []
         then (Inr (String (al_StaticAddress alias), Some label, resolvedKind), [])
         else case al_NextSubaddrIdx alias of
           None \<Rightarrow> (Inl (ErrMsg ''dynamic alias missing index''), [])
         | Some idx \<Rightarrow>
            (case walletRPC s of
               None \<Rightarrow> (Inl (ErrMsg ''wallet rpc not configured''), [])
             | Some w \<Rightarrow>
                if \<not> Enabled (Some w) then (Inl (ErrMsg ''wallet rpc not configured''), [])
                else
                  (case GetAccount d (al_AccountID alias) of
                     Inl err \<Rightarrow> (Inl err, [DbGetAccount (al_AccountID alias)])
                   | Inr acct \<Rightarrow>
                      if \<not> Valid (acc_WalletName acct) \<or> String (acc_WalletName acct) = []
                      then (Inl (ErrMsg ''wallet name missing''),
                            [DbGetAccount (al_AccountID alias)])
                      else
                        (case OpenWallet w (String (acc_WalletName acct)) of
                           (Some err, t1) \<Rightarrow>
                             (Inl err, DbGetAccount (al_AccountID alias) # t1)
                         | (None, t1) \<Rightarrow>
                             (case GetAddress w idx of
                                (Inl err, t2) \<Rightarrow>
                                  (Inl err, DbGetAccount (al_AccountID alias) # t1 @ t2)
                              | (Inr addr, t2) \<Rightarrow>
                                  (Inr (addr, Some label, resolvedKind),
                                   DbGetAccount (al_AccountID alias) # t1 @ t2))))))
      else (Inl (ErrMsg ''unknown alias mode''), []))"

definition signResolveResponse ::
  "Lib \<Rightarrow> PublicService \<Rightarrow> ResponseWriter \<Rightarrow> resolveRequest \<Rightarrow> resolveResponse
     \<Rightarrow> ResponseWriter \<times> event list" where
  "signResolveResponse L s w req resp =
     (let expires = (case resp_ExpiresAt resp of
                       None \<Rightarrow> []
                     | Some t \<Rightarrow> Format_RFC3339 L t);
          canonical = Join [''MONALIAS_RESOLVE'', req_Acct req, resp_Address resp,
                            req_Network req, expires, signingKID s] [CHR 0x0A];
          sig = ed25519_Sign L (signer s) canonical
      in (Header_Set ''X-Monalias-Sig'' (base64_Encode L sig)
            (Header_Set ''X-Monalias-Key-Id'' (signingKID s) w),
          [Ed25519Sign canonical]))"

definition handleCatchAll ::
  "Lib \<Rightarrow> PublicService \<Rightarrow> ResponseWriter \<Rightarrow> resolveRequest \<Rightarrow> ResponseWriter \<times> event list" where
  "handleCatchAll L s w req =
     (if catchAll s = [] then (writeJSONError w 404 ''alias_not_found'', [])
      else
        (let resp = \<lparr>resp_Address = catchAll s, resp_Network = req_Network req,
                     resp_Meta = \<lparr>meta_DisplayName = None, meta_Alias = None,
                                  meta_ResolvedKind = ''CATCH_ALL''\<rparr>,
                     resp_ExpiresAt = None\<rparr>;
             display = Domain (cfg s) @ '' (catch-all)'';
             resp = (if display \<noteq> []
                     then resp\<lparr>resp_Meta := (resp_Meta resp)\<lparr>meta_DisplayName := Some display\<rparr>\<rparr>
                     else resp)
         in case signResolveResponse L s w req resp of
              (w1, t) \<Rightarrow> (writeJSON w1 200 (JSONResolve resp), t)))"

definition handleResolve ::
  "Lib \<Rightarrow> PublicService \<Rightarrow> DB \<Rightarrow> ResponseWriter \<Rightarrow> Request \<Rightarrow> ResponseWriter \<times> event list" where
  "handleResolve L s d w r =
     (if Method r \<noteq> ''POST'' then (WriteHeader 405 w, [])
      else case GetInstanceConfig d of
        Inl err \<Rightarrow> (writeJSONError w 500 ''server_error'', [DbGetInstanceConfig])
      | Inr instCfg \<Rightarrow>
        if ic_Status instCfg = ''LOCKED''
        then (writeJSONErrorWithReason w 503 ''instance_locked'' (ic_StatusReason instCfg),
              [DbGetInstanceConfig])
        else case Body r of
          None \<Rightarrow> (writeJSONError w 400 ''bad_request'', [DbGetInstanceConfig])
        | Some req \<Rightarrow>
          if req_Acct req = [] \<or> req_Network req = []
          then (writeJSONError w 400 ''bad_request'', [DbGetInstanceConfig])
          else if req_Network req \<noteq> ''mainnet'' \<and> req_Network req \<noteq> ''stagenet''
          then (writeJSONError w 400 ''invalid_network'', [DbGetInstanceConfig])
          else if \<not> acctMatchesDomain L (req_Acct req) (Domain (cfg s))
          then (writeJSONError w 404 ''alias_not_found'', [DbGetInstanceConfig])
          else case GetAliasByFullAcct d (req_Acct req) of
            Inl err \<Rightarrow>
              if err = ErrNoRows
              then (case handleCatchAll L s w req of
                      (w1, t) \<Rightarrow>
                        (w1, [DbGetInstanceConfig, DbGetAliasByFullAcct (req_Acct req)] @ t))
              else (writeJSONError w 500 ''server_error'',
                    [DbGetInstanceConfig, DbGetAliasByFullAcct (req_Acct req)])
          | Inr alias \<Rightarrow>
            (case resolveAlias s d alias of
               (Inl err, t1) \<Rightarrow>
                 (writeJSONError w 500 ''server_error'',
                  [DbGetInstanceConfig, DbGetAliasByFullAcct (req_Acct req)] @ t1)
             | (Inr (address, aliasLabel, resolvedKind), t1) \<Rightarrow>
                 (let resp = \<lparr>resp_Address = address, resp_Network = req_Network req,
                              resp_Meta = \<lparr>meta_DisplayName = None, meta_Alias = aliasLabel,
                                           meta_ResolvedKind = resolvedKind\<rparr>,
                              resp_ExpiresAt = None\<rparr>;
                      display = displayNameFromAcct (req_Acct req);
                      resp = (if display \<noteq> []
                              then resp\<lparr>resp_Meta :=
                                          (resp_Meta resp)\<lparr>meta_DisplayName := Some display\<rparr>\<rparr>
                              else resp)
                  in case signResolveResponse L s w req resp of
                       (w1, t2) \<Rightarrow>
                         (writeJSON w1 200 (JSONResolve resp),
                          [DbGetInstanceConfig, DbGetAliasByFullAcct (req_Acct req)]
                            @ t1 @ t2))))"

subsection \<open>\<^verbatim>\<open>internal/http/rate_limit.go\<close>: the rate limiter\<close>

text \<open>
  The token bucket \<^verbatim>\<open>rate.Limiter\<close> and \<^verbatim>\<open>net.SplitHostPort\<close> are outside the
  repository. A bucket is a value of a type \<open>'l\<close>; \<open>rate_NewLimiter\<close> makes one from the
  rate and the burst, \<open>rate_Allow\<close> takes the bucket and the current time and returns the
  verdict and the bucket after the call.
\<close>

record ('l, 'r) RateLib =
  rate_NewLimiter :: "'r \<Rightarrow> int \<Rightarrow> 'l"
  rate_Allow :: "'l \<Rightarrow> time \<Rightarrow> bool \<times> 'l"
  net_SplitHostPort :: "string \<Rightarrow> error + string \<times> string"

record 'l ipLimiter =
  limiter :: 'l
  lastSeen :: time

record ('l, 'r) IPRateLimiter =
  rps :: 'r
  burst :: int
  ips :: "(string \<times> 'l ipLimiter) list"

definition NewIPRateLimiter :: "'r \<Rightarrow> int \<Rightarrow> ('l, 'r) IPRateLimiter" where
  "NewIPRateLimiter r b = \<lparr>rps = r, burst = b, ips = []\<rparr>"

text \<open>
  \<^verbatim>\<open>getLimiter\<close> returns the bucket of the address and the limiter with the entry's
  \<^verbatim>\<open>lastSeen\<close> refreshed, or with a new entry.
\<close>

definition getLimiter ::
  "('l, 'r) RateLib \<Rightarrow> ('l, 'r) IPRateLimiter \<Rightarrow> time \<Rightarrow> string
     \<Rightarrow> 'l \<times> ('l, 'r) IPRateLimiter" where
  "getLimiter R l now ip =
     (case map_of (ips l) ip of
        Some entry \<Rightarrow>
          (limiter entry, l\<lparr>ips := AList.update ip (entry\<lparr>lastSeen := now\<rparr>) (ips l)\<rparr>)
      | None \<Rightarrow>
          (let lim = rate_NewLimiter R (rps l) (burst l)
           in (lim, l\<lparr>ips := AList.update ip \<lparr>limiter = lim, lastSeen = now\<rparr> (ips l)\<rparr>)))"

text \<open>\<^verbatim>\<open>cleanup\<close> deletes the entries idle for more than ten minutes (in seconds).\<close>

definition cleanup :: "('l, 'r) IPRateLimiter \<Rightarrow> time \<Rightarrow> ('l, 'r) IPRateLimiter" where
  "cleanup l now = l\<lparr>ips := filter (\<lambda>(ip, entry). \<not> (now - lastSeen entry > 600)) (ips l)\<rparr>"

definition clientIP :: "('l, 'r) RateLib \<Rightarrow> Request \<Rightarrow> string" where
  "clientIP R r =
     (case net_SplitHostPort R (RemoteAddr r) of
        Inl err \<Rightarrow> RemoteAddr r
      | Inr (host, port) \<Rightarrow> host)"

text \<open>
  The bucket is shared through a pointer: \<^verbatim>\<open>limiter.Allow()\<close> changes the bucket held by
  the entry, so the limiter returned has the entry's bucket replaced by the bucket after
  the call.
\<close>

definition Middleware ::
  "('l, 'r) RateLib \<Rightarrow> ('l, 'r) IPRateLimiter \<Rightarrow> time
     \<Rightarrow> (ResponseWriter \<Rightarrow> Request \<Rightarrow> ResponseWriter \<times> event list)
     \<Rightarrow> ResponseWriter \<Rightarrow> Request
     \<Rightarrow> (ResponseWriter \<times> event list) \<times> ('l, 'r) IPRateLimiter" where
  "Middleware R l now next w r =
     (let ip = clientIP R r in
      case getLimiter R l now ip of
        (lim, l1) \<Rightarrow>
          (case rate_Allow R lim now of
             (ok, lim') \<Rightarrow>
               (let l2 = l1\<lparr>ips := map (\<lambda>(k, entry). if k = ip then (k, entry\<lparr>limiter := lim'\<rparr>)
                                                    else (k, entry)) (ips l1)\<rparr>
                in if \<not> ok
                   then ((((WriteHeader 429
                              (Header_Set ''Retry-After'' ''30''
                                 (Header_Set ''Content-Type'' ''application/json'' w)))
                            \<lparr>Written :=
                               Some (RawBytes ''{\"error\":\"rate_limited\",\"retry_after_seconds\":30}'')\<rparr>),
                          []), l2)
                   else (next w r, l2))))"

subsection \<open>\<^verbatim>\<open>internal/identity\<close>: the watchdog\<close>

record wk_key =
  Kid :: string
  Alg :: string
  PublicKey :: string
  Use :: string

record wellKnown =
  wk_Homeserver :: string
  wk_Version :: string
  wk_Keys :: "wk_key list"

text \<open>
  What the outside world answers in one check: \<^verbatim>\<open>http.NewRequestWithContext\<close> rejects
  the URL (it does not parse: the configured domain has a space or a control character),
  or \<^verbatim>\<open>client.Do\<close> fails (network error, timeout), or a response arrives, with its status
  code and what \<^verbatim>\<open>json.Decoder.Decode\<close> makes of its body (\<open>None\<close> when decoding fails).
\<close>

datatype fetch =
    NewRequestError
  | DoError
  | Response nat "wellKnown option"

record Watchdog =
  wd_cfg :: Config

fun keyMatches :: "wk_key list \<Rightarrow> string \<Rightarrow> string \<Rightarrow> bool" where
  "keyMatches [] kid pubkey = False"
| "keyMatches (key # keys) kid pubkey =
     (if Kid key = kid \<and> PublicKey key = pubkey then True
      else keyMatches keys kid pubkey)"

definition markStatus ::
  "Watchdog \<Rightarrow> DB \<Rightarrow> time \<Rightarrow> string \<Rightarrow> string option
     \<Rightarrow> ((error + InstanceConfig) \<times> DB) \<times> event list" where
  "markStatus w d now st reason =
     (UpdateInstanceStatus d st reason (Some now),
      [DbUpdateInstanceStatus st reason (Some now)])"

definition CheckOnce ::
  "Watchdog \<Rightarrow> DB \<Rightarrow> fetch \<Rightarrow> time \<Rightarrow> ((error + InstanceConfig) \<times> DB) \<times> event list" where
  "CheckOnce w d answer now =
     (case GetInstanceConfig d of
        Inl err \<Rightarrow> ((Inl err, d), [DbGetInstanceConfig])
      | Inr c \<Rightarrow>
         (let wellKnownURL = ''https://'' @ Domain (wd_cfg w) @ ''/.well-known/monalias'' in
          case answer of
            NewRequestError \<Rightarrow> ((Inl ErrRequest, d), [DbGetInstanceConfig])
          | DoError \<Rightarrow>
              (case markStatus w d now ''DEGRADED'' (Some ''well_known_unreachable'') of
                 (r, t) \<Rightarrow> (r, [DbGetInstanceConfig, HttpGet wellKnownURL] @ t))
          | Response code decoded \<Rightarrow>
              if code \<noteq> 200 then
                (case markStatus w d now ''DEGRADED'' (Some ''well_known_unreachable'') of
                   (r, t) \<Rightarrow> (r, [DbGetInstanceConfig, HttpGet wellKnownURL] @ t))
              else
                (case decoded of
                   None \<Rightarrow>
                     (case markStatus w d now ''DEGRADED'' (Some ''well_known_unreachable'') of
                        (r, t) \<Rightarrow> (r, [DbGetInstanceConfig, HttpGet wellKnownURL] @ t))
                 | Some wk \<Rightarrow>
                     if wk_Homeserver wk \<noteq> PublicBaseURL (wd_cfg w) then
                       (case markStatus w d now ''LOCKED'' (Some ''identity_mismatch'') of
                          (r, t) \<Rightarrow> (r, [DbGetInstanceConfig, HttpGet wellKnownURL] @ t))
                     else if \<not> keyMatches (wk_Keys wk) (ic_SigningKeyID c) (ic_SigningPubkey c)
                     then
                       (case markStatus w d now ''LOCKED'' (Some ''identity_mismatch'') of
                          (r, t) \<Rightarrow> (r, [DbGetInstanceConfig, HttpGet wellKnownURL] @ t))
                     else
                       (case markStatus w d now ''OK'' None of
                          (r, t) \<Rightarrow> (r, [DbGetInstanceConfig, HttpGet wellKnownURL] @ t)))))"

text \<open>
  \<^verbatim>\<open>Run\<close> loops over a \<^verbatim>\<open>select\<close>: on a tick of the timer it calls \<^verbatim>\<open>CheckOnce\<close> and
  drops what it returns, on \<^verbatim>\<open>ctx.Done()\<close> it returns. The loop is driven here by the
  list of what it receives: each tick comes with the answer of the outside world and the
  time of the check. With nothing left to receive it blocks, and the database stays as
  it is.
\<close>

datatype signal = Tick fetch time | Done

fun Run :: "Watchdog \<Rightarrow> DB \<Rightarrow> signal list \<Rightarrow> DB" where
  "Run w d [] = d"
| "Run w d (Done # rest) = d"
| "Run w d (Tick answer now # rest) = Run w (snd (fst (CheckOnce w d answer now))) rest"

subsection \<open>\<^verbatim>\<open>internal/graphql\<close>: the instance mutations\<close>

record Resolver =
  watchdog :: Watchdog

datatype InstanceInfoResolver = InstanceInfoResolver InstanceConfig

fun Status :: "InstanceInfoResolver \<Rightarrow> string" where
  "Status (InstanceInfoResolver c) = ic_Status c"

definition LockInstance ::
  "Resolver \<Rightarrow> DB \<Rightarrow> string \<Rightarrow> time \<Rightarrow> (error + InstanceInfoResolver) \<times> DB" where
  "LockInstance r d reason now =
     (case UpdateInstanceStatus d ''LOCKED'' (Some reason) (Some now) of
        (Inl err, d') \<Rightarrow> (Inl err, d')
      | (Inr c, d') \<Rightarrow> (Inr (InstanceInfoResolver c), d'))"

definition UnlockInstance ::
  "Resolver \<Rightarrow> DB \<Rightarrow> fetch \<Rightarrow> time \<Rightarrow> (error + InstanceInfoResolver) \<times> DB" where
  "UnlockInstance r d answer now =
     (case fst (CheckOnce (watchdog r) d answer now) of
        (Inl err, d') \<Rightarrow> (Inl err, d')
      | (Inr c, d') \<Rightarrow> (Inr (InstanceInfoResolver c), d'))"

definition RunIdentityCheck ::
  "Resolver \<Rightarrow> DB \<Rightarrow> fetch \<Rightarrow> time \<Rightarrow> (error + InstanceInfoResolver) \<times> DB" where
  "RunIdentityCheck r d answer now =
     (case fst (CheckOnce (watchdog r) d answer now) of
        (Inl err, d') \<Rightarrow> (Inl err, d')
      | (Inr c, d') \<Rightarrow> (Inr (InstanceInfoResolver c), d'))"

section \<open>Concrete instances\<close>

text \<open>
  A deployment for the domain \<open>example.com\<close>, used to evaluate the theorems below. The
  library functions are simple stand-ins: case folding of the ASCII letters, a signature
  that shows the key and the message it was made from, an encoding that tags its input.
\<close>

definition ascii_lower :: "char \<Rightarrow> char" where
  "ascii_lower c =
     (let n = (of_char c :: nat) in if 65 \<le> n \<and> n \<le> 90 then char_of (n + 32) else c)"

definition ex_lib :: Lib where
  "ex_lib = \<lparr>EqualFold = (\<lambda>a b. map ascii_lower a = map ascii_lower b),
             ed25519_Sign = (\<lambda>key msg. ''sig['' @ key @ '']('' @ msg @ '')''),
             base64_Encode = (\<lambda>x. ''b64:'' @ x),
             Format_RFC3339 = (\<lambda>t. ''2026-01-18T11:30:00Z'')\<rparr>"

definition ex_config :: Config where
  "ex_config = \<lparr>Domain = ''example.com'', PublicBaseURL = ''https://example.com'',
                CatchAllAddress = ''89CatchAll'', SigningKeyID = ''main-2026-01''\<rparr>"

definition ex_instance :: "string \<Rightarrow> string option \<Rightarrow> InstanceConfig" where
  "ex_instance st reason =
     \<lparr>ic_ID = 1, ic_Domain = ''example.com'', ic_Homeserver = ''https://example.com'',
      ic_SigningKeyID = ''main-2026-01'', ic_SigningPubkey = ''PUBKEY'',
      ic_Status = st, ic_StatusReason = reason, ic_LastIdentityCheckAt = None\<rparr>"

definition ex_account :: Account where
  "ex_account = \<lparr>acc_ID = 1, acc_Handle = ''bob$example.com'',
                 acc_WalletName = Some ''bobwallet'', acc_CreatedAt = 0\<rparr>"

definition ex_alias :: "string \<Rightarrow> string \<Rightarrow> string option \<Rightarrow> int option \<Rightarrow> Alias" where
  "ex_alias acct mode address idx =
     \<lparr>al_ID = 1, al_AccountID = 1, al_FullAcct = acct, al_AliasLabel = ''rent'',
      al_Mode = mode, al_StaticAddress = address, al_NextSubaddrIdx = idx,
      al_CreatedAt = 0, al_UpdatedAt = 0\<rparr>"

definition ex_db :: "string \<Rightarrow> string option \<Rightarrow> Alias list \<Rightarrow> DB" where
  "ex_db st reason als =
     \<lparr>instance_config = Some (ex_instance st reason), accounts = [ex_account],
      aliases = als, unavailable = False\<rparr>"

text \<open>A wallet bridge that opens every wallet and answers \<open>addr\<close> at every index.\<close>

definition ex_wallet :: "string \<Rightarrow> WalletRPC option" where
  "ex_wallet addr =
     Some \<lparr>client = Some \<lparr>rpc_OpenWallet = (\<lambda>name. None),
                           rpc_GetAddress = (\<lambda>i. Inr [addr])\<rparr>\<rparr>"

definition ex_service :: "WalletRPC option \<Rightarrow> PublicService" where
  "ex_service wallet = NewPublicService ex_config ''KEY'' wallet"

definition ex_writer :: ResponseWriter where
  "ex_writer = \<lparr>Header = [], StatusCode = None, Written = None\<rparr>"

definition ex_request :: "string \<Rightarrow> string \<Rightarrow> Request" where
  "ex_request acct network =
     \<lparr>Method = ''POST'', RemoteAddr = ''203.0.113.7:4242'',
      Body = Some \<lparr>req_Acct = acct, req_Network = network\<rparr>\<rparr>"

definition ex_wellKnown :: "string \<Rightarrow> string \<Rightarrow> wellKnown" where
  "ex_wellKnown homeserver pubkey =
     \<lparr>wk_Homeserver = homeserver, wk_Version = ''0.1'',
      wk_Keys = [\<lparr>Kid = ''main-2026-01'', Alg = ''Ed25519'', PublicKey = pubkey,
                  Use = ''sig''\<rparr>]\<rparr>"

definition ex_resolver :: Resolver where
  "ex_resolver = \<lparr>watchdog = \<lparr>wd_cfg = ex_config\<rparr>\<rparr>"

text \<open>
  A token bucket that holds whole tokens and never refills, and a peer address taken as
  it is.
\<close>

definition ex_ratelib :: "(nat, nat) RateLib" where
  "ex_ratelib = \<lparr>rate_NewLimiter = (\<lambda>r b. nat b),
                 rate_Allow = (\<lambda>tokens now. (0 < tokens, tokens - 1)),
                 net_SplitHostPort = (\<lambda>a. Inl (ErrMsg ''missing port in address''))\<rparr>"

section \<open>Properties of the building blocks\<close>

subsection \<open>Response writer\<close>

lemma Header_Get_Set [simp]:
  "Header_Get (Header_Set k v w) k' = (if k = k' then Some v else Header_Get w k')"
  by (simp add: Header_Get_def Header_Set_def update_conv')

lemma writeJSON_fields [simp]:
  "StatusCode (writeJSON w c p) = Some c"
  "Written (writeJSON w c p) = Some p"
  "Header_Get (writeJSON w c p) k =
     (if k = ''Content-Type'' then Some ''application/json'' else Header_Get w k)"
  by (auto simp add: writeJSON_def WriteHeader_def Header_Set_def Header_Get_def update_conv')

subsection \<open>Splitting an account name\<close>

lemma Split_no_sep: "c \<notin> set s \<Longrightarrow> Split s c = [s]"
  by (induction s) auto

lemma Split_append: "c \<notin> set l \<Longrightarrow> Split (l @ c # r) c = l # Split r c"
  by (induction l) auto

lemma Split_not_Nil [simp]: "Split s c \<noteq> []"
  by (induction s) (auto split: list.splits)

lemma Split_single: "Split s c = [x] \<Longrightarrow> s = x \<and> c \<notin> set x"
proof (induction s arbitrary: x)
  case Nil
  then show ?case by simp
next
  case (Cons a s)
  then show ?case by (auto split: if_splits list.splits)
qed

lemma Split_two:
  "Split s c = [l, r] \<longleftrightarrow> s = l @ c # r \<and> c \<notin> set l \<and> c \<notin> set r"
proof
  assume "Split s c = [l, r]"
  then show "s = l @ c # r \<and> c \<notin> set l \<and> c \<notin> set r"
  proof (induction s arbitrary: l)
    case Nil
    then show ?case by simp
  next
    case (Cons a s)
    show ?case
    proof (cases "a = c")
      case True
      with Cons.prems have "l = []" "Split s c = [r]" by auto
      with True Split_single[of s c r] show ?thesis by auto
    next
      case False
      with Cons.prems obtain p where p: "Split s c = [p, r]" "l = a # p"
        by (auto split: list.splits)
      from Cons.IH[OF p(1)] p(2) False show ?thesis by auto
    qed
  qed
next
  assume "s = l @ c # r \<and> c \<notin> set l \<and> c \<notin> set r"
  then show "Split s c = [l, r]"
    by (simp add: Split_append Split_no_sep)
qed

text \<open>
  \<^verbatim>\<open>acctMatchesDomain\<close> holds exactly of the names with one \<open>$\<close> whose text after it
  folds to the domain.
\<close>

lemma acctMatchesDomain_iff:
  "acctMatchesDomain L acct domain \<longleftrightarrow>
     (\<exists>l sfx. acct = l @ CHR ''$'' # sfx \<and> CHR ''$'' \<notin> set l \<and> CHR ''$'' \<notin> set sfx \<and>
              EqualFold L sfx domain)"
proof
  assume "acctMatchesDomain L acct domain"
  then have len: "length (Split acct CHR ''$'') = 2"
    and fold: "EqualFold L (Split acct CHR ''$'' ! 1) domain"
    by (auto simp add: acctMatchesDomain_def Let_def split: if_splits)
  from len obtain l sfx where sp: "Split acct CHR ''$'' = [l, sfx]"
    by (auto simp add: length_Suc_conv numeral_2_eq_2)
  with fold Split_two[of acct "CHR ''$''" l sfx]
  show "\<exists>l sfx. acct = l @ CHR ''$'' # sfx \<and> CHR ''$'' \<notin> set l \<and> CHR ''$'' \<notin> set sfx \<and>
              EqualFold L sfx domain"
    by auto
next
  assume "\<exists>l sfx. acct = l @ CHR ''$'' # sfx \<and> CHR ''$'' \<notin> set l \<and> CHR ''$'' \<notin> set sfx \<and>
              EqualFold L sfx domain"
  then obtain l sfx where "Split acct CHR ''$'' = [l, sfx]" "EqualFold L sfx domain"
    using Split_two[of acct "CHR ''$''"] by blast
  then show "acctMatchesDomain L acct domain"
    by (simp add: acctMatchesDomain_def)
qed

subsection \<open>Database reads and the traces of the resolve path\<close>

lemma GetAliasByFullAcct_miss:
  "GetInstanceConfig d = Inr c \<Longrightarrow> \<forall>a \<in> set (aliases d). al_FullAcct a \<noteq> acct \<Longrightarrow>
   GetAliasByFullAcct d acct = Inl ErrNoRows"
  by (auto simp add: GetAliasByFullAcct_def GetInstanceConfig_def find_None_iff
      split: if_splits option.splits)

lemma OpenWallet_trace:
  "OpenWallet w name = (x, t) \<Longrightarrow> t = [] \<or> t = [RpcOpenWallet name]"
  by (auto simp add: OpenWallet_def split: option.splits)

lemma GetAddress_trace:
  "GetAddress w i = (x, t) \<Longrightarrow> t = [] \<or> t = [RpcGetAddress (uint64 i)]"
  by (auto simp add: GetAddress_def split: option.splits sum.splits list.splits)

lemma resolveAlias_no_write: "resolveAlias s d a = (x, t) \<Longrightarrow> e \<in> set t \<Longrightarrow> \<not> is_write e"
  unfolding resolveAlias_def Let_def
  by (auto split: if_splits option.splits sum.splits prod.splits
      dest!: OpenWallet_trace GetAddress_trace)

lemma handleCatchAll_no_write:
  "handleCatchAll L s w req = (x, t) \<Longrightarrow> e \<in> set t \<Longrightarrow> \<not> is_write e"
  by (auto simp add: handleCatchAll_def signResolveResponse_def Let_def split: if_splits)

lemma handleResolve_no_write: "\<forall>e \<in> set (snd (handleResolve L s d w r)). \<not> is_write e"
proof -
  obtain x t where xt: "handleResolve L s d w r = (x, t)" by (cases "handleResolve L s d w r")
  have "\<And>e. e \<in> set t \<Longrightarrow> \<not> is_write e"
    using xt unfolding handleResolve_def signResolveResponse_def Let_def
    by (auto split: if_splits option.splits sum.splits prod.splits
        dest: resolveAlias_no_write handleCatchAll_no_write)
  with xt show ?thesis by simp
qed

subsection \<open>Signing\<close>

lemma signResolveResponse_eq:
  "signResolveResponse L s w req resp =
     (Header_Set ''X-Monalias-Sig''
        (base64_Encode L (ed25519_Sign L (signer s)
           (''MONALIAS_RESOLVE'' @ [CHR 0x0A] @ req_Acct req @ [CHR 0x0A] @
            resp_Address resp @ [CHR 0x0A] @ req_Network req @ [CHR 0x0A] @
            (case resp_ExpiresAt resp of None \<Rightarrow> [] | Some t \<Rightarrow> Format_RFC3339 L t) @
            [CHR 0x0A] @ signingKID s)))
        (Header_Set ''X-Monalias-Key-Id'' (signingKID s) w),
      [Ed25519Sign
         (''MONALIAS_RESOLVE'' @ [CHR 0x0A] @ req_Acct req @ [CHR 0x0A] @
          resp_Address resp @ [CHR 0x0A] @ req_Network req @ [CHR 0x0A] @
          (case resp_ExpiresAt resp of None \<Rightarrow> [] | Some t \<Rightarrow> Format_RFC3339 L t) @
          [CHR 0x0A] @ signingKID s)])"
  by (simp add: signResolveResponse_def Let_def)

text \<open>A response of status 200 is a signed one: it was written after \<^verbatim>\<open>signResolveResponse\<close>.\<close>

lemma handleCatchAll_success_shape:
  assumes "StatusCode (fst (handleCatchAll L s w req)) = Some 200"
  shows "\<exists>resp. handleCatchAll L s w req =
           (writeJSON (fst (signResolveResponse L s w req resp)) 200 (JSONResolve resp),
            snd (signResolveResponse L s w req resp)) \<and>
         resp_ExpiresAt resp = None"
proof (cases "catchAll s = []")
  case True
  with assms show ?thesis by (simp add: handleCatchAll_def writeJSONError_def)
next
  case False
  then show ?thesis
    by (intro exI[of _ "\<lparr>resp_Address = catchAll s, resp_Network = req_Network req,
                 resp_Meta = \<lparr>meta_DisplayName = Some (Domain (cfg s) @ '' (catch-all)''),
                              meta_Alias = None, meta_ResolvedKind = ''CATCH_ALL''\<rparr>,
                 resp_ExpiresAt = None\<rparr>"])
       (simp add: handleCatchAll_def Let_def split: prod.splits)
qed

lemma handleResolve_success_shape:
  assumes "StatusCode (fst (handleResolve L s d w r)) = Some 200"
  shows "\<exists>req resp t. Body r = Some req \<and>
           handleResolve L s d w r =
             (writeJSON (fst (signResolveResponse L s w req resp)) 200 (JSONResolve resp),
              t @ snd (signResolveResponse L s w req resp)) \<and>
           resp_ExpiresAt resp = None"
proof -
  from assms obtain req where req: "Body r = Some req"
    by (auto simp add: handleResolve_def writeJSONError_def writeJSONErrorWithReason_def
        WriteHeader_def split: if_splits sum.splits option.splits)
  show ?thesis
  proof (cases "GetAliasByFullAcct d (req_Acct req)")
    case (Inl err)
    with assms req have st: "StatusCode (fst (handleCatchAll L s w req)) = Some 200"
      and eq: "handleResolve L s d w r =
         (fst (handleCatchAll L s w req),
          [DbGetInstanceConfig, DbGetAliasByFullAcct (req_Acct req)]
            @ snd (handleCatchAll L s w req))"
      by (auto simp add: handleResolve_def writeJSONError_def writeJSONErrorWithReason_def
          WriteHeader_def split: if_splits sum.splits prod.splits)
    from handleCatchAll_success_shape[OF st] obtain resp where
      "handleCatchAll L s w req =
           (writeJSON (fst (signResolveResponse L s w req resp)) 200 (JSONResolve resp),
            snd (signResolveResponse L s w req resp))" "resp_ExpiresAt resp = None"
      by blast
    with eq req show ?thesis by auto
  next
    case (Inr found)
    note hit = this
    obtain res t1 where ra: "resolveAlias s d found = (res, t1)"
      by (cases "resolveAlias s d found")
    from assms req hit ra obtain address lbl kind where res: "res = Inr (address, lbl, kind)"
      by (cases res)
         (auto simp add: handleResolve_def writeJSONError_def writeJSONErrorWithReason_def
            WriteHeader_def split: if_splits sum.splits)
    define resp where "resp =
      (if displayNameFromAcct (req_Acct req) \<noteq> []
       then \<lparr>resp_Address = address, resp_Network = req_Network req,
             resp_Meta = \<lparr>meta_DisplayName = Some (displayNameFromAcct (req_Acct req)),
                          meta_Alias = lbl, meta_ResolvedKind = kind\<rparr>,
             resp_ExpiresAt = None\<rparr>
       else \<lparr>resp_Address = address, resp_Network = req_Network req,
             resp_Meta = \<lparr>meta_DisplayName = None, meta_Alias = lbl,
                          meta_ResolvedKind = kind\<rparr>,
             resp_ExpiresAt = None\<rparr>)"
    have eq: "handleResolve L s d w r =
             (writeJSON (fst (signResolveResponse L s w req resp)) 200 (JSONResolve resp),
              ([DbGetInstanceConfig, DbGetAliasByFullAcct (req_Acct req)] @ t1)
                @ snd (signResolveResponse L s w req resp))"
      using assms req hit ra res
      by (auto simp add: handleResolve_def writeJSONError_def writeJSONErrorWithReason_def
          WriteHeader_def Let_def resp_def signResolveResponse_eq
          split: if_splits sum.splits)
    have "resp_ExpiresAt resp = None" by (simp add: resp_def)
    with eq req show ?thesis by blast
  qed
qed

subsection \<open>The watchdog's write\<close>

lemma keyMatches_iff:
  "keyMatches keys kid pubkey \<longleftrightarrow> (\<exists>key \<in> set keys. Kid key = kid \<and> PublicKey key = pubkey)"
  by (induction keys) auto

lemma markStatus_written:
  assumes "GetInstanceConfig d = Inr c"
  shows "fst (markStatus w d now st reason) =
           (Inr (c\<lparr>ic_Status := st, ic_StatusReason := reason,
                   ic_LastIdentityCheckAt := Some now\<rparr>),
            d\<lparr>instance_config :=
                 Some (c\<lparr>ic_Status := st, ic_StatusReason := reason,
                         ic_LastIdentityCheckAt := Some now\<rparr>)\<rparr>)"
  using assms
  by (auto simp add: markStatus_def UpdateInstanceStatus_def GetInstanceConfig_def Let_def
      split: if_splits option.splits)

lemma UpdateInstanceStatus_stored:
  "UpdateInstanceStatus d st reason t = (Inr c, d') \<Longrightarrow>
     instance_config d' = Some c \<and> ic_Status c = st"
  by (auto simp add: UpdateInstanceStatus_def Let_def split: if_splits option.splits)

lemma CheckOnce_stored:
  "fst (CheckOnce w d answer now) = (Inr c, d') \<Longrightarrow> instance_config d' = Some c"
  by (auto simp add: CheckOnce_def markStatus_def Let_def
      split: sum.splits fetch.splits if_splits option.splits
      dest: UpdateInstanceStatus_stored)

lemma CheckOnce_mismatch_locks:
  assumes "GetInstanceConfig d = Inr c"
    and "wk_Homeserver wk \<noteq> PublicBaseURL (wd_cfg w) \<or>
         \<not> (\<exists>key \<in> set (wk_Keys wk).
               Kid key = ic_SigningKeyID c \<and> PublicKey key = ic_SigningPubkey c)"
  shows "map_option ic_Status
           (instance_config (snd (fst (CheckOnce w d (Response 200 (Some wk)) now)))) =
         Some ''LOCKED''"
  using assms
  by (auto simp add: CheckOnce_def markStatus_def UpdateInstanceStatus_def
      GetInstanceConfig_def Let_def keyMatches_iff split: if_splits option.splits)

section \<open>The claims\<close>

subsection \<open>Dynamic aliases without a stored address\<close>

text \<open>
  Claim C1. The specification says that the first successful resolution of a dynamic alias
  without a stored address writes the derived address back onto the alias, so that a second
  resolution returns the same address without a call to the wallet bridge. The resolve path
  has no such write: \<^verbatim>\<open>resolveAlias\<close> reads the account, opens its wallet and asks for
  the address at the stored index, and \<^verbatim>\<open>handleResolve\<close> sends no write to the database
  on any path. The address of a dynamic alias is stored when the alias is created, by the
  admin API. What holds instead: every resolution of such an alias, with a bridge that
  opens the wallet and answers at the index, returns the first address of the bridge's
  answer after exactly one account read, one \<^verbatim>\<open>open_wallet\<close> and one \<^verbatim>\<open>get_address\<close>, and
  the handler writes nothing.
\<close>

theorem C1_dynamic_resolution_asks_the_bridge:
  assumes "al_Mode a = ''DYNAMIC_SUBADDRESS''"
    and "al_StaticAddress a = None \<or> al_StaticAddress a = Some []"
    and "al_NextSubaddrIdx a = Some idx"
    and "walletRPC s = Some bridge"
    and "client bridge = Some c"
    and "GetAccount d (al_AccountID a) = Inr acct"
    and "acc_WalletName acct = Some name"
    and "name \<noteq> []"
    and "rpc_OpenWallet c name = None"
    and "rpc_GetAddress c (uint64 idx) = Inr (addr # rest)"
  shows "resolveAlias s d a =
           (Inr (addr, Some (al_AliasLabel a), ''NORMAL''),
            [DbGetAccount (al_AccountID a), RpcOpenWallet name, RpcGetAddress (uint64 idx)]) \<and>
         (\<forall>e \<in> set (snd (handleResolve L s d w r)). \<not> is_write e)"
proof -
  have "resolveAlias s d a =
           (Inr (addr, Some (al_AliasLabel a), ''NORMAL''),
            [DbGetAccount (al_AccountID a), RpcOpenWallet name, RpcGetAddress (uint64 idx)])"
    using assms
    by (auto simp add: resolveAlias_def Valid_def String_def Enabled_def OpenWallet_def
        GetAddress_def)
  then show ?thesis using handleResolve_no_write by blast
qed

text \<open>
  An instance: the alias \<open>bob+rent$example.com\<close> at index 3, a bridge that answers
  \<open>89FirstAnswer\<close>.
\<close>

theorem C1_dynamic_resolution_asks_the_bridge_witness:
  "al_Mode (ex_alias ''bob+rent$example.com'' ''DYNAMIC_SUBADDRESS'' None (Some 3))
     = ''DYNAMIC_SUBADDRESS'' \<and>
   al_NextSubaddrIdx (ex_alias ''bob+rent$example.com'' ''DYNAMIC_SUBADDRESS'' None (Some 3))
     = Some 3 \<and>
   GetAccount
     (ex_db ''OK'' None [ex_alias ''bob+rent$example.com'' ''DYNAMIC_SUBADDRESS'' None (Some 3)])
     (al_AccountID (ex_alias ''bob+rent$example.com'' ''DYNAMIC_SUBADDRESS'' None (Some 3)))
     = Inr ex_account \<and>
   resolveAlias (ex_service (ex_wallet ''89FirstAnswer''))
     (ex_db ''OK'' None [ex_alias ''bob+rent$example.com'' ''DYNAMIC_SUBADDRESS'' None (Some 3)])
     (ex_alias ''bob+rent$example.com'' ''DYNAMIC_SUBADDRESS'' None (Some 3))
     = (Inr (''89FirstAnswer'', Some ''rent'', ''NORMAL''),
        [DbGetAccount 1, RpcOpenWallet ''bobwallet'', RpcGetAddress 3]) \<and>
   \<not> is_write (DbGetAccount 1)"
proof -
  let ?a = "ex_alias ''bob+rent$example.com'' ''DYNAMIC_SUBADDRESS'' None (Some 3)"
  let ?c = "\<lparr>rpc_OpenWallet = (\<lambda>name. None),
             rpc_GetAddress = (\<lambda>i. Inr [''89FirstAnswer''])\<rparr>"
  let ?bridge = "\<lparr>client = Some ?c\<rparr>"
  let ?s = "ex_service (ex_wallet ''89FirstAnswer'')"
  let ?d = "ex_db ''OK'' None [?a]"
  let ?r = "ex_request ''bob+rent$example.com'' ''mainnet''"
  have h1: "al_Mode ?a = ''DYNAMIC_SUBADDRESS''" by (simp add: ex_alias_def)
  have h2: "al_StaticAddress ?a = None \<or> al_StaticAddress ?a = Some []"
    by (simp add: ex_alias_def)
  have h3: "al_NextSubaddrIdx ?a = Some 3" by (simp add: ex_alias_def)
  have h4: "walletRPC ?s = Some ?bridge"
    by (simp add: ex_service_def ex_wallet_def NewPublicService_def)
  have h5: "client ?bridge = Some ?c" by simp
  have h6: "GetAccount ?d (al_AccountID ?a) = Inr ex_account"
    by (simp add: GetAccount_def ex_db_def ex_alias_def ex_account_def)
  have h7: "acc_WalletName ex_account = Some ''bobwallet''" by (simp add: ex_account_def)
  have h8: "''bobwallet'' \<noteq> []" by simp
  have h9: "rpc_OpenWallet ?c ''bobwallet'' = None" by simp
  have h10: "rpc_GetAddress ?c (uint64 3) = Inr (''89FirstAnswer'' # [])" by simp
  have v: "al_AliasLabel ?a = ''rent''" "al_AccountID ?a = 1" "uint64 3 = 3"
    by (simp_all add: ex_alias_def uint64_def)
  note inst = C1_dynamic_resolution_asks_the_bridge[OF h1 h2 h3 h4 h5 h6 h7 h8 h9 h10,
      of ex_lib ex_writer ?r]
  from inst have res: "resolveAlias ?s ?d ?a
     = (Inr (''89FirstAnswer'', Some ''rent'', ''NORMAL''),
        [DbGetAccount 1, RpcOpenWallet ''bobwallet'', RpcGetAddress 3])"
    by (simp only: v simp_thms)
  have nw: "\<not> is_write (DbGetAccount 1)" by simp
  from h1 h3 h6 res nw show ?thesis by (simp only: simp_thms)
qed

text \<open>
  The claim as the specification states it fails here: the same alias on the same database
  (the first resolution has written nothing: its whole trace is two reads, two wallet calls
  and one signature) is resolved a second time, by a bridge that now answers
  \<open>89SecondAnswer\<close>. The second answer is the bridge's new address, and the bridge was
  called.
\<close>

theorem C1_counterexample:
  "Written (fst (handleResolve ex_lib (ex_service (ex_wallet ''89FirstAnswer''))
             (ex_db ''OK'' None
                [ex_alias ''bob+rent$example.com'' ''DYNAMIC_SUBADDRESS'' None (Some 3)])
             ex_writer (ex_request ''bob+rent$example.com'' ''mainnet''))) =
     Some (JSONResolve
       \<lparr>resp_Address = ''89FirstAnswer'', resp_Network = ''mainnet'',
        resp_Meta = \<lparr>meta_DisplayName = Some ''bob'', meta_Alias = Some ''rent'',
                     meta_ResolvedKind = ''NORMAL''\<rparr>,
        resp_ExpiresAt = None\<rparr>) \<and>
   snd (handleResolve ex_lib (ex_service (ex_wallet ''89FirstAnswer''))
             (ex_db ''OK'' None
                [ex_alias ''bob+rent$example.com'' ''DYNAMIC_SUBADDRESS'' None (Some 3)])
             ex_writer (ex_request ''bob+rent$example.com'' ''mainnet'')) =
     [DbGetInstanceConfig, DbGetAliasByFullAcct ''bob+rent$example.com'', DbGetAccount 1,
      RpcOpenWallet ''bobwallet'', RpcGetAddress 3,
      Ed25519Sign (''MONALIAS_RESOLVE'' @ [CHR 0x0A] @ ''bob+rent$example.com'' @ [CHR 0x0A] @
                   ''89FirstAnswer'' @ [CHR 0x0A] @ ''mainnet'' @ [CHR 0x0A] @ [CHR 0x0A] @
                   ''main-2026-01'')] \<and>
   Written (fst (handleResolve ex_lib (ex_service (ex_wallet ''89SecondAnswer''))
             (ex_db ''OK'' None
                [ex_alias ''bob+rent$example.com'' ''DYNAMIC_SUBADDRESS'' None (Some 3)])
             ex_writer (ex_request ''bob+rent$example.com'' ''mainnet''))) =
     Some (JSONResolve
       \<lparr>resp_Address = ''89SecondAnswer'', resp_Network = ''mainnet'',
        resp_Meta = \<lparr>meta_DisplayName = Some ''bob'', meta_Alias = Some ''rent'',
                     meta_ResolvedKind = ''NORMAL''\<rparr>,
        resp_ExpiresAt = None\<rparr>) \<and>
   RpcGetAddress 3 \<in> set (snd (handleResolve ex_lib (ex_service (ex_wallet ''89SecondAnswer''))
             (ex_db ''OK'' None
                [ex_alias ''bob+rent$example.com'' ''DYNAMIC_SUBADDRESS'' None (Some 3)])
             ex_writer (ex_request ''bob+rent$example.com'' ''mainnet'')))"
  by code_simp

subsection \<open>The lock check\<close>

text \<open>
  Claim C2. The specification places the test of the status \<^verbatim>\<open>LOCKED\<close> after the
  validation of the input, so that a locked instance would still answer \<^verbatim>\<open>bad_request\<close>
  or \<^verbatim>\<open>invalid_network\<close> to an invalid request. In \<^verbatim>\<open>handleResolve\<close> the test is
  the first thing after the instance configuration is read, before the body is decoded and
  before any validation. What holds instead: on a locked instance every POST request,
  valid or not, is answered with status 503 and the code \<^verbatim>\<open>instance_locked\<close>, with the
  stored reason when there is one; and the only external call is the read of the instance
  configuration: no alias lookup, no wallet call, no signature.
\<close>

theorem C2_lock_check_comes_first:
  assumes "Method r = ''POST''"
    and "GetInstanceConfig d = Inr c"
    and "ic_Status c = ''LOCKED''"
  shows "StatusCode (fst (handleResolve L s d w r)) = Some 503 \<and>
         Written (fst (handleResolve L s d w r)) =
           Some (JSONMap (case ic_StatusReason c of
                            None \<Rightarrow> [(''error'', ''instance_locked'')]
                          | Some reason \<Rightarrow> [(''error'', ''instance_locked''),
                                             (''reason'', reason)])) \<and>
         snd (handleResolve L s d w r) = [DbGetInstanceConfig]"
  using assms
  by (simp add: handleResolve_def writeJSONErrorWithReason_def split: option.splits)

text \<open>
  An instance: a locked instance asked for an alias it has, by a valid request.
\<close>

theorem C2_lock_check_comes_first_witness:
  "Method (ex_request ''bob+rent$example.com'' ''mainnet'') = ''POST'' \<and>
   GetInstanceConfig
     (ex_db ''LOCKED'' (Some ''identity_mismatch'')
        [ex_alias ''bob+rent$example.com'' ''STATIC_ADDRESS'' (Some ''89Static'') None])
     = Inr (ex_instance ''LOCKED'' (Some ''identity_mismatch'')) \<and>
   ic_Status (ex_instance ''LOCKED'' (Some ''identity_mismatch'')) = ''LOCKED'' \<and>
   StatusCode (fst (handleResolve ex_lib (ex_service None)
     (ex_db ''LOCKED'' (Some ''identity_mismatch'')
        [ex_alias ''bob+rent$example.com'' ''STATIC_ADDRESS'' (Some ''89Static'') None])
     ex_writer (ex_request ''bob+rent$example.com'' ''mainnet''))) = Some 503 \<and>
   Written (fst (handleResolve ex_lib (ex_service None)
     (ex_db ''LOCKED'' (Some ''identity_mismatch'')
        [ex_alias ''bob+rent$example.com'' ''STATIC_ADDRESS'' (Some ''89Static'') None])
     ex_writer (ex_request ''bob+rent$example.com'' ''mainnet'')))
     = Some (JSONMap [(''error'', ''instance_locked''), (''reason'', ''identity_mismatch'')]) \<and>
   snd (handleResolve ex_lib (ex_service None)
     (ex_db ''LOCKED'' (Some ''identity_mismatch'')
        [ex_alias ''bob+rent$example.com'' ''STATIC_ADDRESS'' (Some ''89Static'') None])
     ex_writer (ex_request ''bob+rent$example.com'' ''mainnet'')) = [DbGetInstanceConfig]"
proof -
  let ?d = "ex_db ''LOCKED'' (Some ''identity_mismatch'')
        [ex_alias ''bob+rent$example.com'' ''STATIC_ADDRESS'' (Some ''89Static'') None]"
  let ?r = "ex_request ''bob+rent$example.com'' ''mainnet''"
  let ?c = "ex_instance ''LOCKED'' (Some ''identity_mismatch'')"
  have h1: "Method ?r = ''POST''" by (simp add: ex_request_def)
  have h2: "GetInstanceConfig ?d = Inr ?c" by (simp add: GetInstanceConfig_def ex_db_def)
  have h3: "ic_Status ?c = ''LOCKED''" by (simp add: ex_instance_def)
  have v: "ic_StatusReason ?c = Some ''identity_mismatch''" by (simp add: ex_instance_def)
  from C2_lock_check_comes_first[OF h1 h2 h3, of ex_lib "ex_service None" ex_writer]
  have "StatusCode (fst (handleResolve ex_lib (ex_service None) ?d ex_writer ?r)) = Some 503 \<and>
        Written (fst (handleResolve ex_lib (ex_service None) ?d ex_writer ?r))
          = Some (JSONMap [(''error'', ''instance_locked''),
                           (''reason'', ''identity_mismatch'')]) \<and>
        snd (handleResolve ex_lib (ex_service None) ?d ex_writer ?r) = [DbGetInstanceConfig]"
    by (simp only: v option.case)
  with h1 h2 h3 show ?thesis by (simp only: simp_thms)
qed

text \<open>
  The claim as the specification states it fails here: on a locked instance, a request with
  an empty account name and a request for the network \<open>testnet\<close> are both answered with
  503 and \<^verbatim>\<open>instance_locked\<close>, where the specification promises \<^verbatim>\<open>bad_request\<close> and
  \<^verbatim>\<open>invalid_network\<close> (status 400).
\<close>

theorem C2_counterexample:
  "StatusCode (fst (handleResolve ex_lib (ex_service None)
     (ex_db ''LOCKED'' (Some ''identity_mismatch'') [])
     ex_writer (ex_request [] ''mainnet''))) = Some 503 \<and>
   Written (fst (handleResolve ex_lib (ex_service None)
     (ex_db ''LOCKED'' (Some ''identity_mismatch'') [])
     ex_writer (ex_request [] ''mainnet'')))
     = Some (JSONMap [(''error'', ''instance_locked''), (''reason'', ''identity_mismatch'')]) \<and>
   Written (fst (handleResolve ex_lib (ex_service None)
     (ex_db ''LOCKED'' (Some ''identity_mismatch'') [])
     ex_writer (ex_request [] ''mainnet'')))
     \<noteq> Some (JSONMap [(''error'', ''bad_request'')]) \<and>
   StatusCode (fst (handleResolve ex_lib (ex_service None)
     (ex_db ''LOCKED'' (Some ''identity_mismatch'') [])
     ex_writer (ex_request ''bob$example.com'' ''testnet''))) = Some 503 \<and>
   Written (fst (handleResolve ex_lib (ex_service None)
     (ex_db ''LOCKED'' (Some ''identity_mismatch'') [])
     ex_writer (ex_request ''bob$example.com'' ''testnet'')))
     = Some (JSONMap [(''error'', ''instance_locked''), (''reason'', ''identity_mismatch'')]) \<and>
   Written (fst (handleResolve ex_lib (ex_service None)
     (ex_db ''LOCKED'' (Some ''identity_mismatch'') [])
     ex_writer (ex_request ''bob$example.com'' ''testnet'')))
     \<noteq> Some (JSONMap [(''error'', ''invalid_network'')])"
  by code_simp

subsection \<open>The canonical string and its signature\<close>

text \<open>
  Claim C3. \<^verbatim>\<open>signResolveResponse\<close> signs the six segments \<open>MONALIAS_RESOLVE\<close>, the
  account name of the request, the address of the response, the network of the request,
  the expiry of the response (the empty string when there is none: the segment stays, so
  two newlines follow each other) and the signing key id, in this order, joined by the
  newline byte; it sets the header \<^verbatim>\<open>X-Monalias-Key-Id\<close> to the key id and the header
  \<^verbatim>\<open>X-Monalias-Sig\<close> to the base64 encoding of the Ed25519 signature of that string.
  And every response of status 200 of \<^verbatim>\<open>handleResolve\<close> carries these two headers, made
  from the request it answers and the response it writes, the signature being the last
  external call of the handler.
\<close>

theorem C3_canonical_sign_string:
  "(\<forall>w req resp.
      signResolveResponse L s w req resp =
        (Header_Set ''X-Monalias-Sig''
           (base64_Encode L (ed25519_Sign L (signer s)
              (''MONALIAS_RESOLVE'' @ [CHR 0x0A] @ req_Acct req @ [CHR 0x0A] @
               resp_Address resp @ [CHR 0x0A] @ req_Network req @ [CHR 0x0A] @
               (case resp_ExpiresAt resp of None \<Rightarrow> [] | Some t \<Rightarrow> Format_RFC3339 L t) @
               [CHR 0x0A] @ signingKID s)))
           (Header_Set ''X-Monalias-Key-Id'' (signingKID s) w),
         [Ed25519Sign
            (''MONALIAS_RESOLVE'' @ [CHR 0x0A] @ req_Acct req @ [CHR 0x0A] @
             resp_Address resp @ [CHR 0x0A] @ req_Network req @ [CHR 0x0A] @
             (case resp_ExpiresAt resp of None \<Rightarrow> [] | Some t \<Rightarrow> Format_RFC3339 L t) @
             [CHR 0x0A] @ signingKID s)])) \<and>
   (StatusCode (fst (handleResolve L s d w r)) = Some 200 \<longrightarrow>
      (\<exists>req resp.
         Body r = Some req \<and>
         Written (fst (handleResolve L s d w r)) = Some (JSONResolve resp) \<and>
         Header_Get (fst (handleResolve L s d w r)) ''X-Monalias-Key-Id'' =
           Some (signingKID s) \<and>
         Header_Get (fst (handleResolve L s d w r)) ''X-Monalias-Sig'' =
           Some (base64_Encode L (ed25519_Sign L (signer s)
             (''MONALIAS_RESOLVE'' @ [CHR 0x0A] @ req_Acct req @ [CHR 0x0A] @
              resp_Address resp @ [CHR 0x0A] @ req_Network req @ [CHR 0x0A] @
              (case resp_ExpiresAt resp of None \<Rightarrow> [] | Some t \<Rightarrow> Format_RFC3339 L t) @
              [CHR 0x0A] @ signingKID s))) \<and>
         last (snd (handleResolve L s d w r)) =
           Ed25519Sign
             (''MONALIAS_RESOLVE'' @ [CHR 0x0A] @ req_Acct req @ [CHR 0x0A] @
              resp_Address resp @ [CHR 0x0A] @ req_Network req @ [CHR 0x0A] @
              (case resp_ExpiresAt resp of None \<Rightarrow> [] | Some t \<Rightarrow> Format_RFC3339 L t) @
              [CHR 0x0A] @ signingKID s)))"
proof (intro conjI allI impI)
  fix w req resp
  show "signResolveResponse L s w req resp =
        (Header_Set ''X-Monalias-Sig''
           (base64_Encode L (ed25519_Sign L (signer s)
              (''MONALIAS_RESOLVE'' @ [CHR 0x0A] @ req_Acct req @ [CHR 0x0A] @
               resp_Address resp @ [CHR 0x0A] @ req_Network req @ [CHR 0x0A] @
               (case resp_ExpiresAt resp of None \<Rightarrow> [] | Some t \<Rightarrow> Format_RFC3339 L t) @
               [CHR 0x0A] @ signingKID s)))
           (Header_Set ''X-Monalias-Key-Id'' (signingKID s) w),
         [Ed25519Sign
            (''MONALIAS_RESOLVE'' @ [CHR 0x0A] @ req_Acct req @ [CHR 0x0A] @
             resp_Address resp @ [CHR 0x0A] @ req_Network req @ [CHR 0x0A] @
             (case resp_ExpiresAt resp of None \<Rightarrow> [] | Some t \<Rightarrow> Format_RFC3339 L t) @
             [CHR 0x0A] @ signingKID s)])"
    by (rule signResolveResponse_eq)
next
  assume "StatusCode (fst (handleResolve L s d w r)) = Some 200"
  from handleResolve_success_shape[OF this] obtain req resp t where
    req: "Body r = Some req" and
    eq: "handleResolve L s d w r =
             (writeJSON (fst (signResolveResponse L s w req resp)) 200 (JSONResolve resp),
              t @ snd (signResolveResponse L s w req resp))"
    by blast
  show "\<exists>req resp.
         Body r = Some req \<and>
         Written (fst (handleResolve L s d w r)) = Some (JSONResolve resp) \<and>
         Header_Get (fst (handleResolve L s d w r)) ''X-Monalias-Key-Id'' =
           Some (signingKID s) \<and>
         Header_Get (fst (handleResolve L s d w r)) ''X-Monalias-Sig'' =
           Some (base64_Encode L (ed25519_Sign L (signer s)
             (''MONALIAS_RESOLVE'' @ [CHR 0x0A] @ req_Acct req @ [CHR 0x0A] @
              resp_Address resp @ [CHR 0x0A] @ req_Network req @ [CHR 0x0A] @
              (case resp_ExpiresAt resp of None \<Rightarrow> [] | Some t \<Rightarrow> Format_RFC3339 L t) @
              [CHR 0x0A] @ signingKID s))) \<and>
         last (snd (handleResolve L s d w r)) =
           Ed25519Sign
             (''MONALIAS_RESOLVE'' @ [CHR 0x0A] @ req_Acct req @ [CHR 0x0A] @
              resp_Address resp @ [CHR 0x0A] @ req_Network req @ [CHR 0x0A] @
              (case resp_ExpiresAt resp of None \<Rightarrow> [] | Some t \<Rightarrow> Format_RFC3339 L t) @
              [CHR 0x0A] @ signingKID s)"
    apply (rule exI[of _ req], rule exI[of _ resp])
    using req eq by (simp add: signResolveResponse_eq)
qed

text \<open>
  An instance: a static alias resolved on a healthy instance. The stand-in signature shows
  the key and the message: the fifth segment is empty, between two newlines.
\<close>

theorem C3_canonical_sign_string_witness:
  "StatusCode (fst (handleResolve ex_lib (ex_service None)
     (ex_db ''OK'' None
        [ex_alias ''bob+rent$example.com'' ''STATIC_ADDRESS'' (Some ''89Static'') None])
     ex_writer (ex_request ''bob+rent$example.com'' ''mainnet''))) = Some 200 \<and>
   Header_Get (fst (handleResolve ex_lib (ex_service None)
     (ex_db ''OK'' None
        [ex_alias ''bob+rent$example.com'' ''STATIC_ADDRESS'' (Some ''89Static'') None])
     ex_writer (ex_request ''bob+rent$example.com'' ''mainnet''))) ''X-Monalias-Key-Id''
     = Some ''main-2026-01'' \<and>
   Header_Get (fst (handleResolve ex_lib (ex_service None)
     (ex_db ''OK'' None
        [ex_alias ''bob+rent$example.com'' ''STATIC_ADDRESS'' (Some ''89Static'') None])
     ex_writer (ex_request ''bob+rent$example.com'' ''mainnet''))) ''X-Monalias-Sig''
     = Some (''b64:sig[KEY]('' @ ''MONALIAS_RESOLVE'' @ [CHR 0x0A] @
             ''bob+rent$example.com'' @ [CHR 0x0A] @ ''89Static'' @ [CHR 0x0A] @
             ''mainnet'' @ [CHR 0x0A] @ [CHR 0x0A] @ ''main-2026-01'' @ '')'')"
proof -
  let ?s = "ex_service None"
  let ?d = "ex_db ''OK'' None
        [ex_alias ''bob+rent$example.com'' ''STATIC_ADDRESS'' (Some ''89Static'') None]"
  let ?r = "ex_request ''bob+rent$example.com'' ''mainnet''"
  let ?h = "handleResolve ex_lib ?s ?d ex_writer ?r"
  let ?req = "\<lparr>req_Acct = ''bob+rent$example.com'', req_Network = ''mainnet''\<rparr>"
  let ?resp = "\<lparr>resp_Address = ''89Static'', resp_Network = ''mainnet'',
        resp_Meta = \<lparr>meta_DisplayName = Some ''bob'', meta_Alias = Some ''rent'',
                     meta_ResolvedKind = ''NORMAL''\<rparr>,
        resp_ExpiresAt = None\<rparr>"
  have st: "StatusCode (fst ?h) = Some 200" by code_simp
  have wr: "Written (fst ?h) = Some (JSONResolve ?resp)" by code_simp
  have body: "Body ?r = Some ?req" by (simp add: ex_request_def)
  from C3_canonical_sign_string[of ex_lib ?s ?d ex_writer ?r] st
  obtain req resp where
    a: "Body ?r = Some req" and
    b: "Written (fst ?h) = Some (JSONResolve resp)" and
    k: "Header_Get (fst ?h) ''X-Monalias-Key-Id'' = Some (signingKID ?s)" and
    g: "Header_Get (fst ?h) ''X-Monalias-Sig'' =
           Some (base64_Encode ex_lib (ed25519_Sign ex_lib (signer ?s)
             (''MONALIAS_RESOLVE'' @ [CHR 0x0A] @ req_Acct req @ [CHR 0x0A] @
              resp_Address resp @ [CHR 0x0A] @ req_Network req @ [CHR 0x0A] @
              (case resp_ExpiresAt resp of None \<Rightarrow> []
               | Some t \<Rightarrow> Format_RFC3339 ex_lib t) @
              [CHR 0x0A] @ signingKID ?s)))"
    by blast
  from a body have req: "req = ?req" by simp
  from b wr have resp: "resp = ?resp" by simp
  have kid: "signingKID ?s = ''main-2026-01''"
    by (simp add: ex_service_def NewPublicService_def ex_config_def)
  have key: "signer ?s = ''KEY''" by (simp add: ex_service_def NewPublicService_def)
  from k kid have k': "Header_Get (fst ?h) ''X-Monalias-Key-Id'' = Some ''main-2026-01''"
    by simp
  from g have g': "Header_Get (fst ?h) ''X-Monalias-Sig''
     = Some (''b64:sig[KEY]('' @ ''MONALIAS_RESOLVE'' @ [CHR 0x0A] @
             ''bob+rent$example.com'' @ [CHR 0x0A] @ ''89Static'' @ [CHR 0x0A] @
             ''mainnet'' @ [CHR 0x0A] @ [CHR 0x0A] @ ''main-2026-01'' @ '')'')"
    unfolding req resp kid key by (simp add: ex_lib_def)
  from st k' g' show ?thesis by (simp only: simp_thms)
qed

subsection \<open>One check of the watchdog\<close>

text \<open>
  Claim C4. The specification says that every check that gets past the read of the
  instance configuration writes one of the three statuses. \<^verbatim>\<open>CheckOnce\<close> has one more way
  out: when \<^verbatim>\<open>http.NewRequestWithContext\<close> rejects the URL built from the configured
  domain, it returns that error and writes nothing. What holds instead, for a check that
  has read the configuration \<open>c\<close>: if the request cannot be built, the result is the error
  and the database is as before, after the read alone; otherwise the check makes the read,
  the request and exactly one update, which stores the current time together with
  \<^verbatim>\<open>DEGRADED\<close> and the reason \<^verbatim>\<open>well_known_unreachable\<close> when the request fails, the
  response is not a 200 or its body does not decode; else \<^verbatim>\<open>LOCKED\<close> and the reason
  \<^verbatim>\<open>identity_mismatch\<close> when the homeserver of the document differs from the public base
  URL or no key of the document has both the signing key id and the signing public key of
  \<open>c\<close>; else \<^verbatim>\<open>OK\<close> and no reason.
\<close>

theorem C4_check_cycle_writes_one_status:
  assumes "GetInstanceConfig d = Inr c"
  shows
   "let wrote = (\<lambda>st reason.
          CheckOnce w d answer now =
            ((Inr (c\<lparr>ic_Status := st, ic_StatusReason := reason,
                     ic_LastIdentityCheckAt := Some now\<rparr>),
              d\<lparr>instance_config :=
                   Some (c\<lparr>ic_Status := st, ic_StatusReason := reason,
                           ic_LastIdentityCheckAt := Some now\<rparr>)\<rparr>),
             [DbGetInstanceConfig,
              HttpGet (''https://'' @ Domain (wd_cfg w) @ ''/.well-known/monalias''),
              DbUpdateInstanceStatus st reason (Some now)]))
    in (case answer of
          NewRequestError \<Rightarrow>
            CheckOnce w d answer now = ((Inl ErrRequest, d), [DbGetInstanceConfig])
        | DoError \<Rightarrow> wrote ''DEGRADED'' (Some ''well_known_unreachable'')
        | Response code decoded \<Rightarrow>
            if code \<noteq> 200 then wrote ''DEGRADED'' (Some ''well_known_unreachable'')
            else (case decoded of
               None \<Rightarrow> wrote ''DEGRADED'' (Some ''well_known_unreachable'')
             | Some wk \<Rightarrow>
                 if wk_Homeserver wk \<noteq> PublicBaseURL (wd_cfg w) \<or>
                    \<not> (\<exists>key \<in> set (wk_Keys wk).
                          Kid key = ic_SigningKeyID c \<and> PublicKey key = ic_SigningPubkey c)
                 then wrote ''LOCKED'' (Some ''identity_mismatch'')
                 else wrote ''OK'' None))"
proof -
  note ms = markStatus_written[OF assms]
  have split_ms: "\<And>st reason. markStatus w d now st reason =
      (fst (markStatus w d now st reason), [DbUpdateInstanceStatus st reason (Some now)])"
    by (simp add: markStatus_def)
  show ?thesis
  proof (cases answer)
    case NewRequestError
    with assms show ?thesis by (simp add: CheckOnce_def)
  next
    case DoError
    then show ?thesis
      using assms split_ms[of "''DEGRADED''" "Some ''well_known_unreachable''"] ms
      by (simp add: CheckOnce_def Let_def split: prod.splits)
  next
    case (Response code decoded)
    then show ?thesis
      using assms ms
        split_ms[of "''DEGRADED''" "Some ''well_known_unreachable''"]
        split_ms[of "''LOCKED''" "Some ''identity_mismatch''"]
        split_ms[of "''OK''" None]
      by (auto simp add: CheckOnce_def Let_def keyMatches_iff split: prod.splits option.splits)
  qed
qed

text \<open>
  An instance: a healthy instance whose published document names another homeserver.
\<close>

theorem C4_check_cycle_writes_one_status_witness:
  "GetInstanceConfig (ex_db ''OK'' None []) = Inr (ex_instance ''OK'' None) \<and>
   snd (CheckOnce (watchdog ex_resolver) (ex_db ''OK'' None [])
          (Response 200 (Some (ex_wellKnown ''https://evil.example'' ''PUBKEY''))) 1000)
     = [DbGetInstanceConfig, HttpGet ''https://example.com/.well-known/monalias'',
        DbUpdateInstanceStatus ''LOCKED'' (Some ''identity_mismatch'') (Some 1000)] \<and>
   instance_config (snd (fst (CheckOnce (watchdog ex_resolver) (ex_db ''OK'' None [])
          (Response 200 (Some (ex_wellKnown ''https://evil.example'' ''PUBKEY''))) 1000)))
     = Some ((ex_instance ''LOCKED'' (Some ''identity_mismatch''))
               \<lparr>ic_LastIdentityCheckAt := Some 1000\<rparr>)"
proof -
  let ?w = "watchdog ex_resolver"
  let ?d = "ex_db ''OK'' None []"
  let ?c = "ex_instance ''OK'' None"
  let ?wk = "ex_wellKnown ''https://evil.example'' ''PUBKEY''"
  let ?c' = "?c\<lparr>ic_Status := ''LOCKED'', ic_StatusReason := Some ''identity_mismatch'',
                 ic_LastIdentityCheckAt := Some 1000\<rparr>"
  have h: "GetInstanceConfig ?d = Inr ?c" by (simp add: GetInstanceConfig_def ex_db_def)
  have mismatch: "wk_Homeserver ?wk \<noteq> PublicBaseURL (wd_cfg ?w)"
    by (simp add: ex_wellKnown_def ex_resolver_def ex_config_def)
  have dom: "Domain (wd_cfg ?w) = ''example.com''"
    by (simp add: ex_resolver_def ex_config_def)
  from C4_check_cycle_writes_one_status[OF h, of ?w "Response 200 (Some ?wk)" 1000] mismatch
  have eq: "CheckOnce ?w ?d (Response 200 (Some ?wk)) 1000 =
            ((Inr ?c', ?d\<lparr>instance_config := Some ?c'\<rparr>),
             [DbGetInstanceConfig,
              HttpGet (''https://'' @ Domain (wd_cfg ?w) @ ''/.well-known/monalias''),
              DbUpdateInstanceStatus ''LOCKED'' (Some ''identity_mismatch'') (Some 1000)])"
    by (simp add: Let_def)
  have c': "?c' = (ex_instance ''LOCKED'' (Some ''identity_mismatch''))
               \<lparr>ic_LastIdentityCheckAt := Some 1000\<rparr>"
    by (simp add: ex_instance_def)
  from eq have t: "snd (CheckOnce ?w ?d (Response 200 (Some ?wk)) 1000)
     = [DbGetInstanceConfig, HttpGet ''https://example.com/.well-known/monalias'',
        DbUpdateInstanceStatus ''LOCKED'' (Some ''identity_mismatch'') (Some 1000)]"
    by (simp add: dom)
  from eq c' have i: "instance_config (snd (fst (CheckOnce ?w ?d (Response 200 (Some ?wk)) 1000)))
     = Some ((ex_instance ''LOCKED'' (Some ''identity_mismatch''))
               \<lparr>ic_LastIdentityCheckAt := Some 1000\<rparr>)"
    by simp
  from h t i show ?thesis by (simp only: simp_thms)
qed

text \<open>
  The claim as the specification states it fails here: the configured domain has a space,
  so the URL \<open>https://not a host/.well-known/monalias\<close> is rejected when the request is
  built. The check has read the configuration, returns the error, and leaves the database
  as it was: no status and no time of check are written.
\<close>

theorem C4_counterexample:
  "CheckOnce \<lparr>wd_cfg = ex_config\<lparr>Domain := ''not a host''\<rparr>\<rparr> (ex_db ''OK'' None [])
     NewRequestError 1000
     = ((Inl ErrRequest, ex_db ''OK'' None []), [DbGetInstanceConfig]) \<and>
   instance_config (snd (fst
     (CheckOnce \<lparr>wd_cfg = ex_config\<lparr>Domain := ''not a host''\<rparr>\<rparr> (ex_db ''OK'' None [])
        NewRequestError 1000)))
     = Some (ex_instance ''OK'' None) \<and>
   ic_LastIdentityCheckAt (ex_instance ''OK'' None) = None \<and>
   \<not> list_ex is_write (snd
     (CheckOnce \<lparr>wd_cfg = ex_config\<lparr>Domain := ''not a host''\<rparr>\<rparr> (ex_db ''OK'' None [])
        NewRequestError 1000))"
  by (simp add: CheckOnce_def GetInstanceConfig_def ex_db_def ex_instance_def)

subsection \<open>The catch-all address\<close>

text \<open>
  Claim C5. A request that reaches the alias lookup (a POST on an instance that is not
  locked, with a body that decodes, an allowed network and an account name that matches the
  domain) and whose account name is the name of no stored alias is answered, when a
  catch-all address is configured, with status 200 and that address, the kind
  \<^verbatim>\<open>CATCH_ALL\<close>, no alias label and the display name made of the domain followed by
  \<open> (catch-all)\<close>; and, when none is configured, with status 404 and the code
  \<^verbatim>\<open>alias_not_found\<close>.
\<close>

theorem C5_catch_all:
  assumes "Method r = ''POST''"
    and "GetInstanceConfig d = Inr c"
    and "ic_Status c \<noteq> ''LOCKED''"
    and "Body r = Some req"
    and "req_Network req = ''mainnet'' \<or> req_Network req = ''stagenet''"
    and "acctMatchesDomain L (req_Acct req) (Domain (cfg s))"
    and "\<forall>a \<in> set (aliases d). al_FullAcct a \<noteq> req_Acct req"
  shows "(catchAll s \<noteq> [] \<longrightarrow>
            StatusCode (fst (handleResolve L s d w r)) = Some 200 \<and>
            Written (fst (handleResolve L s d w r)) =
              Some (JSONResolve
                \<lparr>resp_Address = catchAll s, resp_Network = req_Network req,
                 resp_Meta = \<lparr>meta_DisplayName = Some (Domain (cfg s) @ '' (catch-all)''),
                              meta_Alias = None, meta_ResolvedKind = ''CATCH_ALL''\<rparr>,
                 resp_ExpiresAt = None\<rparr>)) \<and>
         (catchAll s = [] \<longrightarrow>
            StatusCode (fst (handleResolve L s d w r)) = Some 404 \<and>
            Written (fst (handleResolve L s d w r)) =
              Some (JSONMap [(''error'', ''alias_not_found'')]))"
proof -
  have miss: "GetAliasByFullAcct d (req_Acct req) = Inl ErrNoRows"
    using assms(2,7) by (rule GetAliasByFullAcct_miss)
  have nonempty: "req_Acct req \<noteq> []"
    using assms(6) by (auto simp add: acctMatchesDomain_iff)
  have net: "req_Network req \<noteq> []"
    using assms(5) by auto
  show ?thesis
    using assms(1-6) miss nonempty net
    by (auto simp add: handleResolve_def handleCatchAll_def signResolveResponse_def
        writeJSONError_def Let_def)
qed

text \<open>
  Two instances: the name \<open>carol$example.com\<close>, which no alias has, asked of a service
  with the catch-all address \<open>89CatchAll\<close> and of a service with none.
\<close>

theorem C5_catch_all_witness:
  "acctMatchesDomain ex_lib ''carol$example.com'' ''example.com'' \<and>
   StatusCode (fst (handleResolve ex_lib (ex_service None)
     (ex_db ''OK'' None
        [ex_alias ''bob+rent$example.com'' ''STATIC_ADDRESS'' (Some ''89Static'') None])
     ex_writer (ex_request ''carol$example.com'' ''stagenet''))) = Some 200 \<and>
   Written (fst (handleResolve ex_lib (ex_service None)
     (ex_db ''OK'' None
        [ex_alias ''bob+rent$example.com'' ''STATIC_ADDRESS'' (Some ''89Static'') None])
     ex_writer (ex_request ''carol$example.com'' ''stagenet'')))
     = Some (JSONResolve
         \<lparr>resp_Address = ''89CatchAll'', resp_Network = ''stagenet'',
          resp_Meta = \<lparr>meta_DisplayName = Some ''example.com (catch-all)'',
                       meta_Alias = None, meta_ResolvedKind = ''CATCH_ALL''\<rparr>,
          resp_ExpiresAt = None\<rparr>) \<and>
   StatusCode (fst (handleResolve ex_lib
     (NewPublicService (ex_config\<lparr>CatchAllAddress := []\<rparr>) ''KEY'' None)
     (ex_db ''OK'' None
        [ex_alias ''bob+rent$example.com'' ''STATIC_ADDRESS'' (Some ''89Static'') None])
     ex_writer (ex_request ''carol$example.com'' ''stagenet''))) = Some 404 \<and>
   Written (fst (handleResolve ex_lib
     (NewPublicService (ex_config\<lparr>CatchAllAddress := []\<rparr>) ''KEY'' None)
     (ex_db ''OK'' None
        [ex_alias ''bob+rent$example.com'' ''STATIC_ADDRESS'' (Some ''89Static'') None])
     ex_writer (ex_request ''carol$example.com'' ''stagenet'')))
     = Some (JSONMap [(''error'', ''alias_not_found'')])"
proof -
  let ?s = "ex_service None"
  let ?t = "NewPublicService (ex_config\<lparr>CatchAllAddress := []\<rparr>) ''KEY'' None"
  let ?d = "ex_db ''OK'' None
        [ex_alias ''bob+rent$example.com'' ''STATIC_ADDRESS'' (Some ''89Static'') None]"
  let ?r = "ex_request ''carol$example.com'' ''stagenet''"
  let ?req = "\<lparr>req_Acct = ''carol$example.com'', req_Network = ''stagenet''\<rparr>"
  let ?c = "ex_instance ''OK'' None"
  have h1: "Method ?r = ''POST''" by (simp add: ex_request_def)
  have h2: "GetInstanceConfig ?d = Inr ?c" by (simp add: GetInstanceConfig_def ex_db_def)
  have h3: "ic_Status ?c \<noteq> ''LOCKED''" by (simp add: ex_instance_def)
  have h4: "Body ?r = Some ?req" by (simp add: ex_request_def)
  have h5: "req_Network ?req = ''mainnet'' \<or> req_Network ?req = ''stagenet''" by simp
  have m: "acctMatchesDomain ex_lib ''carol$example.com'' ''example.com''" by code_simp
  have dom: "Domain (cfg ?s) = ''example.com''" "Domain (cfg ?t) = ''example.com''"
    by (simp_all add: ex_service_def NewPublicService_def ex_config_def)
  have h6: "acctMatchesDomain ex_lib (req_Acct ?req) (Domain (cfg ?s))"
    using m by (simp add: dom)
  have h6': "acctMatchesDomain ex_lib (req_Acct ?req) (Domain (cfg ?t))"
    using m by (simp add: dom)
  have h7: "\<forall>a \<in> set (aliases ?d). al_FullAcct a \<noteq> req_Acct ?req"
    by (simp add: ex_db_def ex_alias_def)
  have ca: "catchAll ?s = ''89CatchAll''" "catchAll ?t = []"
    by (simp_all add: ex_service_def NewPublicService_def ex_config_def)
  from C5_catch_all[OF h1 h2 h3 h4 h5 h6 h7, of ex_writer]
  have a: "StatusCode (fst (handleResolve ex_lib ?s ?d ex_writer ?r)) = Some 200 \<and>
           Written (fst (handleResolve ex_lib ?s ?d ex_writer ?r))
             = Some (JSONResolve
                 \<lparr>resp_Address = ''89CatchAll'', resp_Network = ''stagenet'',
                  resp_Meta = \<lparr>meta_DisplayName = Some ''example.com (catch-all)'',
                               meta_Alias = None, meta_ResolvedKind = ''CATCH_ALL''\<rparr>,
                  resp_ExpiresAt = None\<rparr>)"
    by (simp add: ca dom)
  from C5_catch_all[OF h1 h2 h3 h4 h5 h6' h7, of ex_writer]
  have b: "StatusCode (fst (handleResolve ex_lib ?t ?d ex_writer ?r)) = Some 404 \<and>
           Written (fst (handleResolve ex_lib ?t ?d ex_writer ?r))
             = Some (JSONMap [(''error'', ''alias_not_found'')])"
    by (simp add: ca)
  from m a b show ?thesis by (simp only: simp_thms)
qed

subsection \<open>Account names of another domain\<close>

text \<open>
  Claim C6. The specification says that an account name whose text after the single
  \<open>$\<close> does not fold to the configured domain, or that has no \<open>$\<close> or more than one,
  is always answered with \<^verbatim>\<open>alias_not_found\<close> and never with \<^verbatim>\<open>bad_request\<close>. In
  \<^verbatim>\<open>handleResolve\<close> the test of the domain is the fourth one: a locked instance has
  already answered \<^verbatim>\<open>instance_locked\<close>, and a request with an empty network or one that
  is not allowed has already been answered with status 400. What holds instead: for a POST
  on an instance that is not locked, with a body that decodes, a non-empty account name and
  an allowed network, such an account name is answered with status 404 and the code
  \<^verbatim>\<open>alias_not_found\<close> after the read of the instance configuration alone: the aliases
  are not looked at, whatever they are.
\<close>

theorem C6_domain_mismatch_is_not_found:
  assumes "Method r = ''POST''"
    and "GetInstanceConfig d = Inr c"
    and "ic_Status c \<noteq> ''LOCKED''"
    and "Body r = Some req"
    and "req_Acct req \<noteq> []"
    and "req_Network req = ''mainnet'' \<or> req_Network req = ''stagenet''"
    and "\<not> (\<exists>l sfx. req_Acct req = l @ CHR ''$'' # sfx \<and> CHR ''$'' \<notin> set l \<and>
                    CHR ''$'' \<notin> set sfx \<and> EqualFold L sfx (Domain (cfg s)))"
  shows "StatusCode (fst (handleResolve L s d w r)) = Some 404 \<and>
         Written (fst (handleResolve L s d w r)) =
           Some (JSONMap [(''error'', ''alias_not_found'')]) \<and>
         snd (handleResolve L s d w r) = [DbGetInstanceConfig]"
proof -
  have "\<not> acctMatchesDomain L (req_Acct req) (Domain (cfg s))"
    using assms(7) by (simp only: acctMatchesDomain_iff not_False_eq_True)
  then show ?thesis
    using assms(1-6) by (auto simp add: handleResolve_def writeJSONError_def)
qed

text \<open>
  Two instances, on a database that holds an alias of the very name asked for: a name of
  another domain, and a name with two \<open>$\<close>.
\<close>

theorem C6_domain_mismatch_is_not_found_witness:
  "StatusCode (fst (handleResolve ex_lib (ex_service None)
     (ex_db ''OK'' None
        [ex_alias ''bob$other.com'' ''STATIC_ADDRESS'' (Some ''89Static'') None])
     ex_writer (ex_request ''bob$other.com'' ''mainnet''))) = Some 404 \<and>
   Written (fst (handleResolve ex_lib (ex_service None)
     (ex_db ''OK'' None
        [ex_alias ''bob$other.com'' ''STATIC_ADDRESS'' (Some ''89Static'') None])
     ex_writer (ex_request ''bob$other.com'' ''mainnet'')))
     = Some (JSONMap [(''error'', ''alias_not_found'')]) \<and>
   snd (handleResolve ex_lib (ex_service None)
     (ex_db ''OK'' None
        [ex_alias ''bob$other.com'' ''STATIC_ADDRESS'' (Some ''89Static'') None])
     ex_writer (ex_request ''bob$other.com'' ''mainnet'')) = [DbGetInstanceConfig] \<and>
   StatusCode (fst (handleResolve ex_lib (ex_service None)
     (ex_db ''OK'' None
        [ex_alias ''bob$other.com'' ''STATIC_ADDRESS'' (Some ''89Static'') None])
     ex_writer (ex_request ''bob$x$example.com'' ''mainnet''))) = Some 404 \<and>
   Written (fst (handleResolve ex_lib (ex_service None)
     (ex_db ''OK'' None
        [ex_alias ''bob$other.com'' ''STATIC_ADDRESS'' (Some ''89Static'') None])
     ex_writer (ex_request ''bob$x$example.com'' ''mainnet'')))
     = Some (JSONMap [(''error'', ''alias_not_found'')])"
proof -
  let ?s = "ex_service None"
  let ?d = "ex_db ''OK'' None
        [ex_alias ''bob$other.com'' ''STATIC_ADDRESS'' (Some ''89Static'') None]"
  let ?c = "ex_instance ''OK'' None"
  let ?ra = "ex_request ''bob$other.com'' ''mainnet''"
  let ?qa = "\<lparr>req_Acct = ''bob$other.com'', req_Network = ''mainnet''\<rparr>"
  let ?rb = "ex_request ''bob$x$example.com'' ''mainnet''"
  let ?qb = "\<lparr>req_Acct = ''bob$x$example.com'', req_Network = ''mainnet''\<rparr>"
  have h2: "GetInstanceConfig ?d = Inr ?c" by (simp add: GetInstanceConfig_def ex_db_def)
  have h3: "ic_Status ?c \<noteq> ''LOCKED''" by (simp add: ex_instance_def)
  have a1: "Method ?ra = ''POST''" by (simp add: ex_request_def)
  have a4: "Body ?ra = Some ?qa" by (simp add: ex_request_def)
  have a5: "req_Acct ?qa \<noteq> []" by simp
  have a6: "req_Network ?qa = ''mainnet'' \<or> req_Network ?qa = ''stagenet''" by simp
  have n1: "\<not> acctMatchesDomain ex_lib (req_Acct ?qa) (Domain (cfg ?s))" by code_simp
  note a7 = n1[unfolded acctMatchesDomain_iff]
  have b1: "Method ?rb = ''POST''" by (simp add: ex_request_def)
  have b4: "Body ?rb = Some ?qb" by (simp add: ex_request_def)
  have b5: "req_Acct ?qb \<noteq> []" by simp
  have b6: "req_Network ?qb = ''mainnet'' \<or> req_Network ?qb = ''stagenet''" by simp
  have n2: "\<not> acctMatchesDomain ex_lib (req_Acct ?qb) (Domain (cfg ?s))" by code_simp
  note b7 = n2[unfolded acctMatchesDomain_iff]
  note first = C6_domain_mismatch_is_not_found[OF a1 h2 h3 a4 a5 a6 a7, of ex_writer]
  note second = C6_domain_mismatch_is_not_found[OF b1 h2 h3 b4 b5 b6 b7, of ex_writer]
  from first second show ?thesis by (simp only: simp_thms)
qed

text \<open>
  The claim as the specification states it fails here. On a locked instance the name
  \<open>bob$other.com\<close>, which does not match the domain \<open>example.com\<close>, is answered with
  503 and \<^verbatim>\<open>instance_locked\<close>; and on a healthy instance the same name in a request
  with an empty network is answered with 400 and \<^verbatim>\<open>bad_request\<close>.
\<close>

theorem C6_counterexample:
  "\<not> acctMatchesDomain ex_lib ''bob$other.com'' ''example.com'' \<and>
   StatusCode (fst (handleResolve ex_lib (ex_service None)
     (ex_db ''LOCKED'' (Some ''identity_mismatch'') [])
     ex_writer (ex_request ''bob$other.com'' ''mainnet''))) = Some 503 \<and>
   Written (fst (handleResolve ex_lib (ex_service None)
     (ex_db ''LOCKED'' (Some ''identity_mismatch'') [])
     ex_writer (ex_request ''bob$other.com'' ''mainnet'')))
     = Some (JSONMap [(''error'', ''instance_locked''), (''reason'', ''identity_mismatch'')]) \<and>
   StatusCode (fst (handleResolve ex_lib (ex_service None) (ex_db ''OK'' None [])
     ex_writer (ex_request ''bob$other.com'' []))) = Some 400 \<and>
   Written (fst (handleResolve ex_lib (ex_service None) (ex_db ''OK'' None [])
     ex_writer (ex_request ''bob$other.com'' [])))
     = Some (JSONMap [(''error'', ''bad_request'')])"
  by code_simp

subsection \<open>Unlocking is a check\<close>

text \<open>
  Claim C7. The mutations \<^verbatim>\<open>unlockInstance\<close> and \<^verbatim>\<open>runIdentityCheck\<close> and one tick of
  the timer of \<^verbatim>\<open>Run\<close> all run \<^verbatim>\<open>CheckOnce\<close>: for every database, every answer of the
  outside world and every time, the two mutations return the same result and leave the same
  database, which is the database \<^verbatim>\<open>CheckOnce\<close> leaves and the one a tick of the timer
  leaves. The status a mutation returns is the status now stored. In particular an
  unlock of a locked instance whose published document still names another homeserver, or
  has no key with both the signing key id and the signing public key, leaves the instance
  \<^verbatim>\<open>LOCKED\<close>.
\<close>

theorem C7_unlock_runs_the_same_check:
  "UnlockInstance r d answer now = RunIdentityCheck r d answer now \<and>
   snd (UnlockInstance r d answer now) = snd (fst (CheckOnce (watchdog r) d answer now)) \<and>
   Run (watchdog r) d [Tick answer now] = snd (fst (CheckOnce (watchdog r) d answer now)) \<and>
   (\<forall>info. fst (UnlockInstance r d answer now) = Inr info \<longrightarrow>
      map_option ic_Status (instance_config (snd (UnlockInstance r d answer now))) =
        Some (Status info)) \<and>
   (\<forall>c wk. GetInstanceConfig d = Inr c \<longrightarrow> ic_Status c = ''LOCKED'' \<longrightarrow>
      answer = Response 200 (Some wk) \<longrightarrow>
      (wk_Homeserver wk \<noteq> PublicBaseURL (wd_cfg (watchdog r)) \<or>
       \<not> (\<exists>key \<in> set (wk_Keys wk).
             Kid key = ic_SigningKeyID c \<and> PublicKey key = ic_SigningPubkey c)) \<longrightarrow>
      map_option ic_Status (instance_config (snd (UnlockInstance r d answer now))) =
        Some ''LOCKED'')"
proof -
  have same: "UnlockInstance r d answer now = RunIdentityCheck r d answer now"
    by (simp add: UnlockInstance_def RunIdentityCheck_def)
  have db: "snd (UnlockInstance r d answer now) =
            snd (fst (CheckOnce (watchdog r) d answer now))"
    by (simp add: UnlockInstance_def split: prod.splits sum.splits)
  have timer: "Run (watchdog r) d [Tick answer now] =
               snd (fst (CheckOnce (watchdog r) d answer now))"
    by simp
  have accepted: "\<forall>info. fst (UnlockInstance r d answer now) = Inr info \<longrightarrow>
      map_option ic_Status (instance_config (snd (UnlockInstance r d answer now))) =
        Some (Status info)"
    by (auto simp add: UnlockInstance_def split: prod.splits sum.splits
        dest: CheckOnce_stored)
  show ?thesis
    using same db timer accepted CheckOnce_mismatch_locks by (simp only:) blast
qed

text \<open>
  An instance: the instance is locked by \<^verbatim>\<open>lockInstance\<close> at time 900; at time 1000 its
  published document names the homeserver \<open>https://evil.example\<close>. The unlock, the check
  and the tick leave the same database, and the instance is still locked.
\<close>

theorem C7_unlock_runs_the_same_check_witness:
  "map_option ic_Status (instance_config
     (snd (LockInstance ex_resolver (ex_db ''OK'' None []) ''maintenance'' 900)))
     = Some ''LOCKED'' \<and>
   UnlockInstance ex_resolver
     (snd (LockInstance ex_resolver (ex_db ''OK'' None []) ''maintenance'' 900))
     (Response 200 (Some (ex_wellKnown ''https://evil.example'' ''PUBKEY''))) 1000
     = RunIdentityCheck ex_resolver
         (snd (LockInstance ex_resolver (ex_db ''OK'' None []) ''maintenance'' 900))
         (Response 200 (Some (ex_wellKnown ''https://evil.example'' ''PUBKEY''))) 1000 \<and>
   Run (watchdog ex_resolver)
     (snd (LockInstance ex_resolver (ex_db ''OK'' None []) ''maintenance'' 900))
     [Tick (Response 200 (Some (ex_wellKnown ''https://evil.example'' ''PUBKEY''))) 1000]
     = snd (UnlockInstance ex_resolver
         (snd (LockInstance ex_resolver (ex_db ''OK'' None []) ''maintenance'' 900))
         (Response 200 (Some (ex_wellKnown ''https://evil.example'' ''PUBKEY''))) 1000) \<and>
   map_option ic_Status (instance_config (snd (UnlockInstance ex_resolver
     (snd (LockInstance ex_resolver (ex_db ''OK'' None []) ''maintenance'' 900))
     (Response 200 (Some (ex_wellKnown ''https://evil.example'' ''PUBKEY''))) 1000)))
     = Some ''LOCKED''"
proof -
  let ?d = "snd (LockInstance ex_resolver (ex_db ''OK'' None []) ''maintenance'' 900)"
  let ?c = "(ex_instance ''LOCKED'' (Some ''maintenance''))\<lparr>ic_LastIdentityCheckAt := Some 900\<rparr>"
  let ?wk = "ex_wellKnown ''https://evil.example'' ''PUBKEY''"
  let ?answer = "Response 200 (Some ?wk)"
  have h1: "GetInstanceConfig ?d = Inr ?c"
    by (simp add: LockInstance_def UpdateInstanceStatus_def GetInstanceConfig_def ex_db_def
        ex_instance_def Let_def)
  have h2: "ic_Status ?c = ''LOCKED''" by (simp add: ex_instance_def)
  have h3: "wk_Homeserver ?wk \<noteq> PublicBaseURL (wd_cfg (watchdog ex_resolver))"
    by (simp add: ex_wellKnown_def ex_resolver_def ex_config_def)
  have locked: "map_option ic_Status (instance_config ?d) = Some ''LOCKED''"
    by (simp add: LockInstance_def UpdateInstanceStatus_def ex_db_def ex_instance_def Let_def)
  note inst = C7_unlock_runs_the_same_check[of ex_resolver ?d ?answer 1000]
  from inst have same: "UnlockInstance ex_resolver ?d ?answer 1000
                          = RunIdentityCheck ex_resolver ?d ?answer 1000"
    by blast
  from inst have db: "snd (UnlockInstance ex_resolver ?d ?answer 1000)
                        = snd (fst (CheckOnce (watchdog ex_resolver) ?d ?answer 1000))"
    by blast
  from inst have tick: "Run (watchdog ex_resolver) ?d [Tick ?answer 1000]
                          = snd (fst (CheckOnce (watchdog ex_resolver) ?d ?answer 1000))"
    by blast
  from db tick have timer: "Run (watchdog ex_resolver) ?d [Tick ?answer 1000]
                              = snd (UnlockInstance ex_resolver ?d ?answer 1000)"
    by (simp only:)
  from inst h1 h2 h3 have still:
    "map_option ic_Status (instance_config (snd (UnlockInstance ex_resolver ?d ?answer 1000)))
       = Some ''LOCKED''"
    by blast
  from locked same timer still show ?thesis by (simp only: simp_thms)
qed

subsection \<open>The answer to a rejected request\<close>

text \<open>
  Claim C8. When the bucket of the client's address refuses the request, \<^verbatim>\<open>Middleware\<close>
  does not call the handler and writes the same answer whatever the bucket, the address and
  the request are: status 429, the headers \<^verbatim>\<open>Content-Type: application/json\<close> and
  \<^verbatim>\<open>Retry-After: 30\<close>, and the body
  \<^verbatim>\<open>{"error":"rate_limited","retry_after_seconds":30}\<close>. The value 30 is a constant of
  the code.
\<close>

theorem C8_rate_limited_response_is_fixed:
  assumes "\<not> fst (rate_Allow R (fst (getLimiter R l now (clientIP R r))) now)"
  shows "fst (Middleware R l now next w r) =
           (w\<lparr>Header := AList.update ''Retry-After'' ''30''
                          (AList.update ''Content-Type'' ''application/json'' (Header w)),
              StatusCode := Some 429,
              Written := Some (RawBytes
                ''{\"error\":\"rate_limited\",\"retry_after_seconds\":30}'')\<rparr>,
            []) \<and>
         Header_Get (fst (fst (Middleware R l now next w r))) ''Retry-After'' = Some ''30''"
  using assms
  by (auto simp add: Middleware_def Let_def WriteHeader_def Header_Set_def Header_Get_def
      update_conv' split: prod.splits)

text \<open>
  An instance: a limiter with a burst of zero refuses the first request of an address.
\<close>

theorem C8_rate_limited_response_is_fixed_witness:
  "\<not> fst (rate_Allow ex_ratelib
       (fst (getLimiter ex_ratelib (NewIPRateLimiter (1::nat) 0) 5
               (clientIP ex_ratelib (ex_request ''bob+rent$example.com'' ''mainnet'')))) 5) \<and>
   fst (Middleware ex_ratelib (NewIPRateLimiter (1::nat) 0) 5
          (handleResolve ex_lib (ex_service None) (ex_db ''OK'' None []))
          ex_writer (ex_request ''bob+rent$example.com'' ''mainnet''))
     = (\<lparr>Header = [(''Content-Type'', ''application/json''), (''Retry-After'', ''30'')],
         StatusCode = Some 429,
         Written = Some (RawBytes
           ''{\"error\":\"rate_limited\",\"retry_after_seconds\":30}'')\<rparr>, []) \<and>
   Header_Get (fst (fst (Middleware ex_ratelib (NewIPRateLimiter (1::nat) 0) 5
          (handleResolve ex_lib (ex_service None) (ex_db ''OK'' None []))
          ex_writer (ex_request ''bob+rent$example.com'' ''mainnet'')))) ''Retry-After''
     = Some ''30''"
proof -
  let ?l = "NewIPRateLimiter (1::nat) 0 :: (nat, nat) IPRateLimiter"
  let ?r = "ex_request ''bob+rent$example.com'' ''mainnet''"
  let ?next = "handleResolve ex_lib (ex_service None) (ex_db ''OK'' None [])"
  have h: "\<not> fst (rate_Allow ex_ratelib
                   (fst (getLimiter ex_ratelib ?l 5 (clientIP ex_ratelib ?r))) 5)"
    by (simp add: ex_ratelib_def getLimiter_def NewIPRateLimiter_def clientIP_def Let_def)
  note inst = C8_rate_limited_response_is_fixed[OF h, of ?next ex_writer]
  from inst have a: "fst (Middleware ex_ratelib ?l 5 ?next ex_writer ?r)
     = (\<lparr>Header = [(''Content-Type'', ''application/json''), (''Retry-After'', ''30'')],
         StatusCode = Some 429,
         Written = Some (RawBytes
           ''{\"error\":\"rate_limited\",\"retry_after_seconds\":30}'')\<rparr>, [])"
    by (simp add: ex_writer_def)
  from inst have b:
    "Header_Get (fst (fst (Middleware ex_ratelib ?l 5 ?next ex_writer ?r))) ''Retry-After''
       = Some ''30''"
    by blast
  from h a b show ?thesis by (simp only: simp_thms)
qed

subsection \<open>Cached dynamic address\<close>

text \<open>
  Claim C9. An alias of mode \<^verbatim>\<open>DYNAMIC_SUBADDRESS\<close> whose stored address is non-empty
  resolves to that address with kind \<^verbatim>\<open>NORMAL\<close> and an empty trace: no wallet call, no
  database read. The service \<open>s\<close> and the index of the alias are arbitrary, so this holds
  with no wallet bridge, with a disabled one and with no derivation index: the test of
  the stored address comes before the tests of the index and of the bridge.
\<close>

theorem C9_cached_dynamic_address:
  assumes "al_Mode a = ''DYNAMIC_SUBADDRESS''"
    and "al_StaticAddress a = Some addr"
    and "addr \<noteq> []"
  shows "resolveAlias s d a = (Inr (addr, Some (al_AliasLabel a), ''NORMAL''), [])"
  using assms by (simp add: resolveAlias_def Valid_def String_def)

text \<open>
  An instance: no wallet bridge, no index, the stored address \<open>89Cached\<close>.
\<close>

theorem C9_cached_dynamic_address_witness:
  "al_Mode (ex_alias ''bob+rent$example.com'' ''DYNAMIC_SUBADDRESS'' (Some ''89Cached'') None)
     = ''DYNAMIC_SUBADDRESS'' \<and>
   al_StaticAddress
     (ex_alias ''bob+rent$example.com'' ''DYNAMIC_SUBADDRESS'' (Some ''89Cached'') None)
     = Some ''89Cached'' \<and>
   ''89Cached'' \<noteq> [] \<and>
   resolveAlias (ex_service None) (ex_db ''OK'' None [])
     (ex_alias ''bob+rent$example.com'' ''DYNAMIC_SUBADDRESS'' (Some ''89Cached'') None)
     = (Inr (''89Cached'', Some ''rent'', ''NORMAL''), [])"
proof -
  let ?a = "ex_alias ''bob+rent$example.com'' ''DYNAMIC_SUBADDRESS'' (Some ''89Cached'') None"
  have h1: "al_Mode ?a = ''DYNAMIC_SUBADDRESS''" by (simp add: ex_alias_def)
  have h2: "al_StaticAddress ?a = Some ''89Cached''" by (simp add: ex_alias_def)
  have h3: "''89Cached'' \<noteq> []" by simp
  have lbl: "al_AliasLabel ?a = ''rent''" by (simp add: ex_alias_def)
  from C9_cached_dynamic_address[OF h1 h2 h3, of "ex_service None" "ex_db ''OK'' None []"]
  have "resolveAlias (ex_service None) (ex_db ''OK'' None []) ?a
          = (Inr (''89Cached'', Some ''rent'', ''NORMAL''), [])"
    by (simp only: lbl)
  with h1 h2 h3 show ?thesis by (simp only: simp_thms)
qed

subsection \<open>Unknown alias mode\<close>

text \<open>
  Claim C10. For an alias whose mode is neither \<^verbatim>\<open>STATIC_ADDRESS\<close> nor
  \<^verbatim>\<open>DYNAMIC_SUBADDRESS\<close>, \<^verbatim>\<open>resolveAlias\<close> returns the error \<open>unknown alias mode\<close>, as a
  value and without any external call; and a request that reaches this alias (a POST on
  an instance that is not locked, with a valid body whose account name matches the domain
  and is the name of the alias) is answered with status 500 and the code
  \<^verbatim>\<open>server_error\<close>, after the two database reads only: no signature is made, so no such
  mode yields a success.
\<close>

theorem C10_unknown_alias_mode:
  assumes "al_Mode a \<noteq> ''STATIC_ADDRESS''"
    and "al_Mode a \<noteq> ''DYNAMIC_SUBADDRESS''"
  shows "resolveAlias s d a = (Inl (ErrMsg ''unknown alias mode''), []) \<and>
    (Method r = ''POST'' \<longrightarrow> GetInstanceConfig d = Inr c \<longrightarrow> ic_Status c \<noteq> ''LOCKED'' \<longrightarrow>
     Body r = Some req \<longrightarrow> req_Acct req \<noteq> [] \<longrightarrow>
     (req_Network req = ''mainnet'' \<or> req_Network req = ''stagenet'') \<longrightarrow>
     acctMatchesDomain L (req_Acct req) (Domain (cfg s)) \<longrightarrow>
     GetAliasByFullAcct d (req_Acct req) = Inr a \<longrightarrow>
       StatusCode (fst (handleResolve L s d w r)) = Some 500 \<and>
       Written (fst (handleResolve L s d w r)) = Some (JSONMap [(''error'', ''server_error'')]) \<and>
       snd (handleResolve L s d w r) = [DbGetInstanceConfig, DbGetAliasByFullAcct (req_Acct req)])"
proof -
  have ra: "resolveAlias s d a = (Inl (ErrMsg ''unknown alias mode''), [])"
    using assms by (simp add: resolveAlias_def)
  show ?thesis
    using ra by (auto simp add: handleResolve_def writeJSONError_def)
qed

text \<open>
  An instance: an alias of mode \<open>ROTATING\<close>, asked for on a healthy instance.
\<close>

theorem C10_unknown_alias_mode_witness:
  "al_Mode (ex_alias ''bob+rent$example.com'' ''ROTATING'' (Some ''89Stored'') (Some 3))
     \<noteq> ''STATIC_ADDRESS'' \<and>
   al_Mode (ex_alias ''bob+rent$example.com'' ''ROTATING'' (Some ''89Stored'') (Some 3))
     \<noteq> ''DYNAMIC_SUBADDRESS'' \<and>
   resolveAlias (ex_service (ex_wallet ''89Bridge''))
     (ex_db ''OK'' None
        [ex_alias ''bob+rent$example.com'' ''ROTATING'' (Some ''89Stored'') (Some 3)])
     (ex_alias ''bob+rent$example.com'' ''ROTATING'' (Some ''89Stored'') (Some 3))
     = (Inl (ErrMsg ''unknown alias mode''), []) \<and>
   StatusCode (fst (handleResolve ex_lib (ex_service (ex_wallet ''89Bridge''))
     (ex_db ''OK'' None
        [ex_alias ''bob+rent$example.com'' ''ROTATING'' (Some ''89Stored'') (Some 3)])
     ex_writer (ex_request ''bob+rent$example.com'' ''mainnet''))) = Some 500 \<and>
   Written (fst (handleResolve ex_lib (ex_service (ex_wallet ''89Bridge''))
     (ex_db ''OK'' None
        [ex_alias ''bob+rent$example.com'' ''ROTATING'' (Some ''89Stored'') (Some 3)])
     ex_writer (ex_request ''bob+rent$example.com'' ''mainnet'')))
     = Some (JSONMap [(''error'', ''server_error'')]) \<and>
   snd (handleResolve ex_lib (ex_service (ex_wallet ''89Bridge''))
     (ex_db ''OK'' None
        [ex_alias ''bob+rent$example.com'' ''ROTATING'' (Some ''89Stored'') (Some 3)])
     ex_writer (ex_request ''bob+rent$example.com'' ''mainnet''))
     = [DbGetInstanceConfig, DbGetAliasByFullAcct ''bob+rent$example.com'']"
proof -
  let ?a = "ex_alias ''bob+rent$example.com'' ''ROTATING'' (Some ''89Stored'') (Some 3)"
  let ?s = "ex_service (ex_wallet ''89Bridge'')"
  let ?d = "ex_db ''OK'' None [?a]"
  let ?r = "ex_request ''bob+rent$example.com'' ''mainnet''"
  let ?req = "\<lparr>req_Acct = ''bob+rent$example.com'', req_Network = ''mainnet''\<rparr>"
  have h1: "al_Mode ?a \<noteq> ''STATIC_ADDRESS''" by (simp add: ex_alias_def)
  have h2: "al_Mode ?a \<noteq> ''DYNAMIC_SUBADDRESS''" by (simp add: ex_alias_def)
  have p1: "Method ?r = ''POST''" by (simp add: ex_request_def)
  have p2: "GetInstanceConfig ?d = Inr (ex_instance ''OK'' None)"
    by (simp add: GetInstanceConfig_def ex_db_def)
  have p3: "ic_Status (ex_instance ''OK'' None) \<noteq> ''LOCKED''" by (simp add: ex_instance_def)
  have p4: "Body ?r = Some ?req" by (simp add: ex_request_def)
  have p5: "req_Acct ?req \<noteq> []" by simp
  have p6: "req_Network ?req = ''mainnet'' \<or> req_Network ?req = ''stagenet''" by simp
  have p7: "acctMatchesDomain ex_lib (req_Acct ?req) (Domain (cfg ?s))" by code_simp
  have p8: "GetAliasByFullAcct ?d (req_Acct ?req) = Inr ?a"
    by (simp add: GetAliasByFullAcct_def ex_db_def ex_alias_def)
  have acct: "req_Acct ?req = ''bob+rent$example.com''" by simp
  from C10_unknown_alias_mode[OF h1 h2, of ?s ?d ?r "ex_instance ''OK'' None" ?req ex_lib
      ex_writer] p1 p2 p3 p4 p5 p6 p7 p8
  have "resolveAlias ?s ?d ?a = (Inl (ErrMsg ''unknown alias mode''), []) \<and>
        StatusCode (fst (handleResolve ex_lib ?s ?d ex_writer ?r)) = Some 500 \<and>
        Written (fst (handleResolve ex_lib ?s ?d ex_writer ?r))
          = Some (JSONMap [(''error'', ''server_error'')]) \<and>
        snd (handleResolve ex_lib ?s ?d ex_writer ?r)
          = [DbGetInstanceConfig, DbGetAliasByFullAcct (req_Acct ?req)]"
    by blast
  with h1 h2 acct show ?thesis by (simp only: simp_thms)
qed

end
